theory Spec2Isabelle
  imports Complex_Main "HOL-Library.Word" "HOL-Library.Log_Nat"
begin

unbundle bit_operations_syntax

section \<open>Floating-point arithmetic\<close>

text \<open>
  The C types \<open>float\<close> and \<open>double\<close> are the IEEE 754 formats binary32 and binary64.
  A value of either type is a finite number, given by the real number it denotes
  (\<open>Finite 0\<close> is the positive zero), the negative zero, an infinity or a NaN. A
  \<open>float\<close> is converted to \<open>double\<close> without change.
\<close>

datatype fp = Finite real | NegZero | PInf | NInf | NaN

text \<open>
  \<open>ilog2 x\<close> is the binary exponent of \<open>x > 0\<close>, the integer \<open>e\<close> with
  \<open>2 powi e \<le> x < 2 powi (e + 1)\<close> (lemma \<open>ilog2_bounds\<close>), computed from the bit
  length of an integer.
\<close>

definition ilog2 :: "real \<Rightarrow> int" where
  "ilog2 x = (if 1 \<le> x then bitlen \<lfloor>x\<rfloor> - 1 else - bitlen (\<lceil>1 / x\<rceil> - 1))"

text \<open>Rounding to the nearest integer, a tie to the even one.\<close>

definition round_even :: "real \<Rightarrow> int" where
  "round_even x =
     (if x - of_int \<lfloor>x\<rfloor> < 1 / 2 then \<lfloor>x\<rfloor>
      else if 1 / 2 < x - of_int \<lfloor>x\<rfloor> then \<lfloor>x\<rfloor> + 1
      else if even \<lfloor>x\<rfloor> then \<lfloor>x\<rfloor> else \<lfloor>x\<rfloor> + 1)"

text \<open>
  Rounding of a real to the binary format with \<open>p\<close> significant bits and largest
  exponent \<open>emax\<close> (smallest normal exponent \<open>1 - emax\<close>), to nearest and ties to
  even: the result is a multiple of the unit in the last place of \<open>x\<close>; it is an
  infinity when the rounded magnitude reaches \<open>2 powi (emax + 1)\<close>, and a zero with
  the sign of \<open>x\<close> when \<open>x\<close> underflows to zero.
\<close>

definition fp_round :: "nat \<Rightarrow> int \<Rightarrow> real \<Rightarrow> fp" where
  "fp_round p emax x =
     (if x = 0 then Finite 0
      else (let e = max (1 - emax) (ilog2 \<bar>x\<bar>);
                ulp = 2 powi (e - int p + 1);
                r = of_int (round_even (x / ulp)) * ulp
            in if 2 powi (emax + 1) \<le> \<bar>r\<bar> then (if x < 0 then NInf else PInf)
               else if r = 0 then (if x < 0 then NegZero else Finite 0)
               else Finite r))"

definition f32 :: "real \<Rightarrow> fp" where
  "f32 = fp_round 24 127"

definition f64 :: "real \<Rightarrow> fp" where
  "f64 = fp_round 53 1023"

definition fp_is_zero :: "fp \<Rightarrow> bool" where
  "fp_is_zero a = (a = Finite 0 \<or> a = NegZero)"

definition fp_is_inf :: "fp \<Rightarrow> bool" where
  "fp_is_inf a = (a = PInf \<or> a = NInf)"

text \<open>The sign bit (of a value that is not a NaN) and the real value of a finite value.\<close>

definition fp_sign :: "fp \<Rightarrow> bool" where
  "fp_sign a = (case a of Finite x \<Rightarrow> x < 0 | NegZero \<Rightarrow> True | NInf \<Rightarrow> True | _ \<Rightarrow> False)"

definition fp_val :: "fp \<Rightarrow> real" where
  "fp_val a = (case a of Finite x \<Rightarrow> x | _ \<Rightarrow> 0)"

definition fp_zero :: "bool \<Rightarrow> fp" where
  "fp_zero s = (if s then NegZero else Finite 0)"

definition fp_inf :: "bool \<Rightarrow> fp" where
  "fp_inf s = (if s then NInf else PInf)"

text \<open>
  The arithmetic operations of IEEE 754 in the default rounding mode; \<open>rnd\<close> is the
  rounding of the format in which the operation is done (\<open>f32\<close> when both operands
  are \<open>float\<close> or one is an integer, \<open>f64\<close> when one is a \<open>double\<close>). Every
  operation rounds on its own: a product and a sum are not contracted into one fused
  operation.
\<close>

definition fp_neg :: "fp \<Rightarrow> fp" where
  "fp_neg a =
     (case a of Finite x \<Rightarrow> (if x = 0 then NegZero else Finite (- x))
              | NegZero \<Rightarrow> Finite 0 | PInf \<Rightarrow> NInf | NInf \<Rightarrow> PInf | NaN \<Rightarrow> NaN)"

definition fp_add :: "(real \<Rightarrow> fp) \<Rightarrow> fp \<Rightarrow> fp \<Rightarrow> fp" where
  "fp_add rnd a b =
     (if a = NaN \<or> b = NaN then NaN
      else if fp_is_inf a then (if fp_is_inf b \<and> b \<noteq> a then NaN else a)
      else if fp_is_inf b then b
      else if fp_val a + fp_val b = 0 then fp_zero (fp_sign a \<and> fp_sign b)
      else rnd (fp_val a + fp_val b))"

definition fp_sub :: "(real \<Rightarrow> fp) \<Rightarrow> fp \<Rightarrow> fp \<Rightarrow> fp" where
  "fp_sub rnd a b = fp_add rnd a (fp_neg b)"

definition fp_mul :: "(real \<Rightarrow> fp) \<Rightarrow> fp \<Rightarrow> fp \<Rightarrow> fp" where
  "fp_mul rnd a b =
     (if a = NaN \<or> b = NaN then NaN
      else if fp_is_inf a \<or> fp_is_inf b
      then (if fp_is_zero a \<or> fp_is_zero b then NaN else fp_inf (fp_sign a \<noteq> fp_sign b))
      else if fp_val a * fp_val b = 0 then fp_zero (fp_sign a \<noteq> fp_sign b)
      else rnd (fp_val a * fp_val b))"

definition fp_div :: "(real \<Rightarrow> fp) \<Rightarrow> fp \<Rightarrow> fp \<Rightarrow> fp" where
  "fp_div rnd a b =
     (if a = NaN \<or> b = NaN then NaN
      else if fp_is_inf a then (if fp_is_inf b then NaN else fp_inf (fp_sign a \<noteq> fp_sign b))
      else if fp_is_inf b then fp_zero (fp_sign a \<noteq> fp_sign b)
      else if fp_is_zero b then (if fp_is_zero a then NaN else fp_inf (fp_sign a \<noteq> fp_sign b))
      else if fp_is_zero a then fp_zero (fp_sign a \<noteq> fp_sign b)
      else rnd (fp_val a / fp_val b))"

definition fp_sqrt :: "(real \<Rightarrow> fp) \<Rightarrow> fp \<Rightarrow> fp" where
  "fp_sqrt rnd a =
     (case a of Finite x \<Rightarrow> (if x < 0 then NaN else if x = 0 then Finite 0 else rnd (sqrt x))
              | NegZero \<Rightarrow> NegZero | PInf \<Rightarrow> PInf | NInf \<Rightarrow> NaN | NaN \<Rightarrow> NaN)"

text \<open>\<open>ceil\<close>: the result is an integer of the format, so it is not rounded.\<close>

definition fp_ceil :: "fp \<Rightarrow> fp" where
  "fp_ceil a =
     (case a of Finite x \<Rightarrow> (if - 1 < x \<and> x < 0 then NegZero else Finite (of_int \<lceil>x\<rceil>))
              | _ \<Rightarrow> a)"

text \<open>The comparisons \<open><\<close>, \<open><=\<close> and \<open>==\<close>: false when an operand is a NaN.\<close>

definition fp_lt :: "fp \<Rightarrow> fp \<Rightarrow> bool" where
  "fp_lt a b =
     (a \<noteq> NaN \<and> b \<noteq> NaN \<and>
      (if fp_is_inf a \<or> fp_is_inf b then a \<noteq> b \<and> (a = NInf \<or> b = PInf)
       else fp_val a < fp_val b))"

definition fp_le :: "fp \<Rightarrow> fp \<Rightarrow> bool" where
  "fp_le a b =
     (a \<noteq> NaN \<and> b \<noteq> NaN \<and>
      (if fp_is_inf a \<or> fp_is_inf b then a = NInf \<or> b = PInf
       else fp_val a \<le> fp_val b))"

definition fp_eq :: "fp \<Rightarrow> fp \<Rightarrow> bool" where
  "fp_eq a b =
     (a \<noteq> NaN \<and> b \<noteq> NaN \<and>
      (if fp_is_inf a \<or> fp_is_inf b then a = b else fp_val a = fp_val b))"

text \<open>The conversion of a \<open>double\<close> to \<open>float\<close> (an assignment to a \<open>float\<close>).\<close>

definition to_f32 :: "fp \<Rightarrow> fp" where
  "to_f32 a = (case a of Finite x \<Rightarrow> f32 x | _ \<Rightarrow> a)"

section \<open>Data model of grbl/Stepper.c\<close>

text \<open>
  The three Cartesian axes (\<open>N_AXIS = 3\<close>); the arrays \<open>steps[N_AXIS]\<close> and
  \<open>sys_position[N_AXIS]\<close> are functions of the axis. The baseline build is modelled:
  \<open>DUAL_X_AXIS\<close> and \<open>DUAL_Y_AXIS\<close> are not defined.
\<close>

datatype axis = X_AXIS | Y_AXIS | Z_AXIS

text \<open>\<open>Stepper_Block_t\<close>: Bresenham data of one planner block, pre-scaled for AMASS.\<close>

record Stepper_Block_t =
  steps :: "axis \<Rightarrow> 32 word"
  step_event_count :: "32 word"
  direction_bits :: "8 word"
  is_pwm_rate_adjusted :: "8 word"

text \<open>\<open>Stepper_Segment_t\<close>: one entry of the segment ring buffer.\<close>

record Stepper_Segment_t =
  n_step :: "16 word"
  cycles_per_tick :: "16 word"
  st_block_index :: "8 word"
  amass_level :: "8 word"
  spindle_pwm :: "8 word"
  backlash_motion :: "8 word"

text \<open>
  \<open>Stepper_t\<close>: the running data of the step interrupt. The two pointers
  \<open>exec_block\<close> and \<open>exec_segment\<close> are indices into \<open>st_block_buffer\<close> and
  \<open>segment_buffer\<close>; \<open>None\<close> is the null pointer.
\<close>

record Stepper_t =
  counter_x :: "32 word"
  counter_y :: "32 word"
  counter_z :: "32 word"
  execute_step :: "8 word"
  step_pulse_time :: "8 word"
  step_outbits :: "8 word"
  dir_outbits :: "8 word"
  st_steps :: "axis \<Rightarrow> 32 word"
  step_count :: "16 word"
  exec_block_index :: "8 word"
  exec_block :: "nat option"
  exec_segment :: "nat option"

text \<open>
  \<open>Stepper_PrepData_t\<close>. The \<open>last_*\<close> fields exist in the \<open>PARKING_ENABLE\<close> build
  only and are untouched otherwise.
\<close>

record Stepper_PrepData_t =
  prep_st_block_index :: "8 word"
  recalculate_flag :: "8 word"
  dt_remainder :: fp
  steps_remaining :: fp
  step_per_mm :: fp
  req_mm_increment :: fp
  last_st_block_index :: "8 word"
  last_steps_remaining :: fp
  last_step_per_mm :: fp
  last_dt_remainder :: fp
  ramp_type :: "8 word"
  mm_complete :: fp
  current_speed :: fp
  maximum_speed :: fp
  exit_speed :: fp
  accelerate_until :: fp
  decelerate_after :: fp
  inv_rate :: fp
  current_spindle_pwm :: "8 word"

text \<open>
  Modelled from the spec: \<open>Planner_Block_t\<close> is declared in Planner.h, which is not
  among the sources; the fields are the ones Stepper.c reads and writes (section 3 of
  the specification, "Planner block").
\<close>

record Planner_Block_t =
  pl_steps :: "axis \<Rightarrow> 32 word"
  pl_step_event_count :: "32 word"
  pl_direction_bits :: "8 word"
  pl_condition :: "8 word"
  pl_backlash_motion :: "8 word"
  entry_speed_sqr :: fp
  acceleration :: fp
  millimeters :: fp
  programmed_rate :: fp
  spindle_speed :: fp

text \<open>
  What the code does to the hardware (GPIO pins, timer 9, delays, the spindle PWM) is
  recorded, in order, as a trace of events.
\<close>

datatype gpio_pin = GPIO_STEP axis | GPIO_DIR axis | GPIO_ENABLE

datatype hw_event =
    GPIO_SetBits gpio_pin
  | GPIO_ResetBits gpio_pin
  | GPIO_InitGPIO
  | TIM9_Init
  | TIM_Cmd bool
  | TIM9_ARR "16 word"
  | TIM9_CCR1 "16 word"
  | Delay_ms nat
  | Delay_us nat
  | Spindle_SetSpeed "8 word"

datatype error = NullPointer | FloatOutOfRange

text \<open>
  The file-scope variables of Stepper.c, followed by the variables of other modules
  that Stepper.c reads or writes (\<open>sys\<close>, \<open>settings\<close>, \<open>sys_position\<close>, the
  planner's block memory and queue) and the hardware trace. \<open>pl_block\<close> points into
  the planner's \<open>block_buffer\<close>; \<open>st_prep_block\<close> into \<open>st_block_buffer\<close>.
\<close>

record machine =
  st_block_buffer :: "nat \<Rightarrow> Stepper_Block_t"
  segment_buffer :: "nat \<Rightarrow> Stepper_Segment_t"
  st :: Stepper_t
  segment_buffer_tail :: "8 word"
  segment_buffer_head :: "8 word"
  segment_next_head :: "8 word"
  step_port_invert_mask :: "8 word"
  dir_port_invert_mask :: "8 word"
  pl_block :: "nat option"
  st_prep_block :: "nat option"
  prep :: Stepper_PrepData_t
  sys_state :: "8 word"
  sys_step_control :: "8 word"
  sys_homing_axis_lock :: "8 word"
  sys_spindle_speed :: fp
  sys_rt_exec_alarm :: "8 word"
  sys_rt_exec_state :: "8 word"
  sys_probe_state :: "8 word"
  sys_position :: "axis \<Rightarrow> 32 word"
  sys_probe_position :: "axis \<Rightarrow> 32 word"
  probe_triggered :: bool
  settings_flags :: "8 word"
  settings_step_invert_mask :: "8 word"
  settings_dir_invert_mask :: "8 word"
  settings_stepper_idle_lock_time :: "8 word"
  block_buffer :: "nat \<Rightarrow> Planner_Block_t"
  planner_queue :: "nat list"
  planner_sys_motion_block :: "nat option"
  hw_trace :: "hw_event list"

text \<open>
  The compile-time constants of Config.h, System.h, Settings.h, Planner.h and
  Probe.h, and the functions of other modules whose bodies are not among the sources.
  They are parameters of the model. \<open>MAX_STEP_RATE_HZ\<close> is \<open>None\<close> when the macro is
  not defined.
\<close>

record config =
  F_TIMER_STEPPER :: nat
  MAX_STEP_RATE_HZ :: "nat option"
  SEGMENT_BUFFER_SIZE :: nat
  ACCELERATION_TICKS_PER_SECOND :: nat
  TICKS_PER_MICROSECOND :: nat
  PARKING_ENABLE :: bool
  STEP_BIT :: "axis \<Rightarrow> nat"
  DIRECTION_BIT :: "axis \<Rightarrow> nat"
  STATE_HOMING :: "8 word"
  STATE_SLEEP :: "8 word"
  STEP_CONTROL_END_MOTION :: "8 word"
  STEP_CONTROL_EXECUTE_HOLD :: "8 word"
  STEP_CONTROL_EXECUTE_SYS_MOTION :: "8 word"
  STEP_CONTROL_UPDATE_SPINDLE_PWM :: "8 word"
  BITFLAG_INVERT_ST_ENABLE :: "8 word"
  BITFLAG_LASER_MODE :: "8 word"
  PL_COND_FLAG_SPINDLE_CW :: "8 word"
  PL_COND_FLAG_SPINDLE_CCW :: "8 word"
  SPINDLE_PWM_OFF_VALUE :: "8 word"
  PROBE_ACTIVE :: "8 word"
  PROBE_OFF :: "8 word"
  EXEC_CYCLE_STOP :: "8 word"
  EXEC_MOTION_CANCEL :: "8 word"
  Settings_GetStepPinMask :: "nat \<Rightarrow> 8 word"
  Settings_GetDirectionPinMask :: "nat \<Rightarrow> 8 word"
  Planner_GetExecBlockExitSpeedSqr :: "machine \<Rightarrow> fp"
  Planner_ComputeProfileNominalSpeed :: "Planner_Block_t \<Rightarrow> fp"
  Spindle_ComputePwmValue :: "fp \<Rightarrow> 8 word"

section \<open>Constants of Stepper.c\<close>

definition MAX_AMASS_LEVEL :: nat where
  "MAX_AMASS_LEVEL = 3"

definition AMASS_LEVEL1 :: "config \<Rightarrow> 32 word" where
  "AMASS_LEVEL1 cfg = of_nat (F_TIMER_STEPPER cfg div 8000)"

definition AMASS_LEVEL2 :: "config \<Rightarrow> 32 word" where
  "AMASS_LEVEL2 cfg = of_nat (F_TIMER_STEPPER cfg div 4000)"

definition AMASS_LEVEL3 :: "config \<Rightarrow> 32 word" where
  "AMASS_LEVEL3 cfg = of_nat (F_TIMER_STEPPER cfg div 2000)"

definition STEP_TIMER_MIN :: "config \<Rightarrow> 16 word" where
  "STEP_TIMER_MIN cfg =
     (case MAX_STEP_RATE_HZ cfg of
        Some hz \<Rightarrow> of_nat (F_TIMER_STEPPER cfg div hz)
      | None \<Rightarrow> of_nat (F_TIMER_STEPPER cfg div 60000))"

definition PREP_FLAG_RECALCULATE :: "8 word" where
  "PREP_FLAG_RECALCULATE = 1"

definition PREP_FLAG_HOLD_PARTIAL_BLOCK :: "8 word" where
  "PREP_FLAG_HOLD_PARTIAL_BLOCK = 2"

definition PREP_FLAG_PARKING :: "8 word" where
  "PREP_FLAG_PARKING = 4"

definition PREP_FLAG_DECEL_OVERRIDE :: "8 word" where
  "PREP_FLAG_DECEL_OVERRIDE = 8"

definition RAMP_ACCEL :: "8 word" where
  "RAMP_ACCEL = 0"

definition RAMP_CRUISE :: "8 word" where
  "RAMP_CRUISE = 1"

definition RAMP_DECEL :: "8 word" where
  "RAMP_DECEL = 2"

definition RAMP_DECEL_OVERRIDE :: "8 word" where
  "RAMP_DECEL_OVERRIDE = 3"

text \<open>\<open>BIT_IS_TRUE(x, mask)\<close> and the plain test \<open>x & mask\<close>.\<close>

definition BIT_IS_TRUE :: "8 word \<Rightarrow> 8 word \<Rightarrow> bool" where
  "BIT_IS_TRUE x msk = (x AND msk \<noteq> 0)"

section \<open>Hardware access\<close>

definition emit :: "hw_event \<Rightarrow> machine \<Rightarrow> machine" where
  "emit e m = m\<lparr>hw_trace := hw_trace m @ [e]\<rparr>"

definition GPIO_write :: "gpio_pin \<Rightarrow> bool \<Rightarrow> machine \<Rightarrow> machine" where
  "GPIO_write pin level m = emit (if level then GPIO_SetBits pin else GPIO_ResetBits pin) m"

section \<open>Control facade\<close>

definition Stepper_Init :: "machine \<Rightarrow> machine" where
  "Stepper_Init m = emit TIM9_Init (emit GPIO_InitGPIO m)"

definition Stepper_WakeUp :: "config \<Rightarrow> machine \<Rightarrow> machine" where
  "Stepper_WakeUp cfg m =
     (let m1 = GPIO_write GPIO_ENABLE
                 (BIT_IS_TRUE (settings_flags m) (BITFLAG_INVERT_ST_ENABLE cfg)) m;
          m2 = emit (Delay_ms 10) m1;
          m3 = m2\<lparr>st := (st m2)\<lparr>step_outbits := 0\<rparr>\<rparr>
      in emit (TIM_Cmd True) m3)"

text \<open>
  \<open>Stepper_PortResetISR\<close>: the falling edge of the step pulse; every step pin goes
  back to its idle level (high where the invert mask has the bit).
\<close>

definition Stepper_PortResetISR :: "config \<Rightarrow> machine \<Rightarrow> machine" where
  "Stepper_PortResetISR cfg m =
     (let idle = (\<lambda>a. bit (step_port_invert_mask m) (STEP_BIT cfg a));
          m1 = GPIO_write (GPIO_STEP X_AXIS) (idle X_AXIS) m;
          m2 = GPIO_write (GPIO_STEP Y_AXIS) (idle Y_AXIS) m1
      in GPIO_write (GPIO_STEP Z_AXIS) (idle Z_AXIS) m2)"

text \<open>
  The condition under which \<open>Stepper_Disable\<close> dwells and then disables the drivers
  (line 265 of Stepper.c).
\<close>

definition idle_lock :: "config \<Rightarrow> machine \<Rightarrow> bool" where
  "idle_lock cfg m =
     ((settings_stepper_idle_lock_time m \<noteq> 0xFF \<or> sys_rt_exec_alarm m \<noteq> 0
        \<or> sys_state m = STATE_SLEEP cfg)
      \<and> sys_state m \<noteq> STATE_HOMING cfg)"

definition Stepper_Disable :: "config \<Rightarrow> 8 word \<Rightarrow> machine \<Rightarrow> machine" where
  "Stepper_Disable cfg ovr_disable m =
     (let m1 = emit (TIM_Cmd False) m;
          m2 = emit (Delay_us 1) m1;
          m3 = Stepper_PortResetISR cfg m2;
          pin_state0 = False;
          m4 = (if idle_lock cfg m3
                then emit (Delay_ms (unat (settings_stepper_idle_lock_time m3))) m3
                else m3);
          pin_state1 = (if idle_lock cfg m3 then True else pin_state0);
          pin_state2 = (if ovr_disable \<noteq> 0 then True else pin_state1);
          pin_state3 = (if BIT_IS_TRUE (settings_flags m4) (BITFLAG_INVERT_ST_ENABLE cfg)
                        then \<not> pin_state2 else pin_state2)
      in GPIO_write GPIO_ENABLE pin_state3 m4)"

text \<open>\<open>Stepper_GenerateStepDirInvertMasks\<close>: the loop over \<open>idx = 0, 1, 2\<close>.\<close>

fun invert_masks_loop :: "config \<Rightarrow> nat list \<Rightarrow> machine \<Rightarrow> machine" where
  "invert_masks_loop cfg [] m = m"
| "invert_masks_loop cfg (idx # rest) m =
     (let m1 = (if BIT_IS_TRUE (settings_step_invert_mask m) (push_bit idx 1)
                then m\<lparr>step_port_invert_mask :=
                         step_port_invert_mask m OR Settings_GetStepPinMask cfg idx\<rparr>
                else m);
          m2 = (if BIT_IS_TRUE (settings_dir_invert_mask m1) (push_bit idx 1)
                then m1\<lparr>dir_port_invert_mask :=
                         dir_port_invert_mask m1 OR Settings_GetDirectionPinMask cfg idx\<rparr>
                else m1)
      in invert_masks_loop cfg rest m2)"

definition Stepper_GenerateStepDirInvertMasks :: "config \<Rightarrow> machine \<Rightarrow> machine" where
  "Stepper_GenerateStepDirInvertMasks cfg m =
     invert_masks_loop cfg [0, 1, 2] (m\<lparr>step_port_invert_mask := 0, dir_port_invert_mask := 0\<rparr>)"

text \<open>The all-zero values that \<open>memset\<close> writes.\<close>

definition zero_Stepper_t :: Stepper_t where
  "zero_Stepper_t =
     \<lparr>counter_x = 0, counter_y = 0, counter_z = 0, execute_step = 0, step_pulse_time = 0,
      step_outbits = 0, dir_outbits = 0, st_steps = (\<lambda>a. 0), step_count = 0,
      exec_block_index = 0, exec_block = None, exec_segment = None\<rparr>"

definition zero_Stepper_PrepData_t :: Stepper_PrepData_t where
  "zero_Stepper_PrepData_t =
     \<lparr>prep_st_block_index = 0, recalculate_flag = 0, dt_remainder = Finite 0,
      steps_remaining = Finite 0, step_per_mm = Finite 0, req_mm_increment = Finite 0,
      last_st_block_index = 0, last_steps_remaining = Finite 0, last_step_per_mm = Finite 0,
      last_dt_remainder = Finite 0, ramp_type = 0, mm_complete = Finite 0,
      current_speed = Finite 0, maximum_speed = Finite 0, exit_speed = Finite 0,
      accelerate_until = Finite 0, decelerate_after = Finite 0, inv_rate = Finite 0,
      current_spindle_pwm = 0\<rparr>"

definition Stepper_Reset :: "config \<Rightarrow> machine \<Rightarrow> machine" where
  "Stepper_Reset cfg m =
     (let m1 = Stepper_Disable cfg 0 m;
          m2 = m1\<lparr>prep := zero_Stepper_PrepData_t, st := zero_Stepper_t\<rparr>;
          m3 = m2\<lparr>st := (st m2)\<lparr>exec_segment := None\<rparr>, pl_block := None,
                   segment_buffer_tail := 0, segment_buffer_head := 0,
                   segment_next_head := 1\<rparr>;
          m4 = Stepper_GenerateStepDirInvertMasks cfg m3;
          m5 = m4\<lparr>st := (st m4)\<lparr>dir_outbits := dir_port_invert_mask m4\<rparr>\<rparr>;
          m6 = GPIO_write (GPIO_STEP Z_AXIS) False
                 (GPIO_write (GPIO_STEP Y_AXIS) False (GPIO_write (GPIO_STEP X_AXIS) False m5))
      in GPIO_write (GPIO_DIR Z_AXIS) False
           (GPIO_write (GPIO_DIR Y_AXIS) False (GPIO_write (GPIO_DIR X_AXIS) False m6)))"

text \<open>
  \<open>Stepper_UpdatePlannerBlockParams\<close>. The write through \<open>pl_block\<close> goes to the
  planner's block memory; the product of line 714 is a \<open>float\<close> product.
\<close>

definition Stepper_UpdatePlannerBlockParams :: "machine \<Rightarrow> machine" where
  "Stepper_UpdatePlannerBlockParams m =
     (case pl_block m of
        None \<Rightarrow> m
      | Some b \<Rightarrow>
          m\<lparr>prep := (prep m)\<lparr>recalculate_flag :=
                        recalculate_flag (prep m) OR PREP_FLAG_RECALCULATE\<rparr>,
            block_buffer := (block_buffer m)
              (b := (block_buffer m b)\<lparr>entry_speed_sqr :=
                        fp_mul f32 (current_speed (prep m)) (current_speed (prep m))\<rparr>),
            pl_block := None\<rparr>)"

definition Stepper_NextBlockIndex :: "config \<Rightarrow> 8 word \<Rightarrow> 8 word" where
  "Stepper_NextBlockIndex cfg block_index =
     (if unat (block_index + 1) = SEGMENT_BUFFER_SIZE cfg - 1 then 0 else block_index + 1)"


section \<open>The step interrupt\<close>

text \<open>The Bresenham counter of an axis (\<open>counter_x\<close>, \<open>counter_y\<close>, \<open>counter_z\<close>).\<close>

definition counter :: "axis \<Rightarrow> Stepper_t \<Rightarrow> 32 word" where
  "counter a s = (case a of X_AXIS \<Rightarrow> counter_x s | Y_AXIS \<Rightarrow> counter_y s | Z_AXIS \<Rightarrow> counter_z s)"

definition set_counter :: "axis \<Rightarrow> 32 word \<Rightarrow> Stepper_t \<Rightarrow> Stepper_t" where
  "set_counter a v s =
     (case a of X_AXIS \<Rightarrow> s\<lparr>counter_x := v\<rparr> | Y_AXIS \<Rightarrow> s\<lparr>counter_y := v\<rparr>
              | Z_AXIS \<Rightarrow> s\<lparr>counter_z := v\<rparr>)"

text \<open>
  Modelled from the spec: \<open>Probe_StateMonitor\<close> is defined in Probe.c, which is not
  among the sources. Section 6: "latches position and signals the supervisor".
\<close>

definition Probe_StateMonitor :: "config \<Rightarrow> machine \<Rightarrow> machine" where
  "Probe_StateMonitor cfg m =
     (if probe_triggered m
      then m\<lparr>sys_probe_state := PROBE_OFF cfg, sys_probe_position := sys_position m,
             sys_rt_exec_state := sys_rt_exec_state m OR EXEC_MOTION_CANCEL cfg\<rparr>
      else m)"

text \<open>
  Lines 337-390: the rising edge of the pulse on every step pin whose bit was latched
  in \<open>step_outbits\<close> by the previous tick (a low pulse where the pin is inverted).
\<close>

definition ISR_pulse_axis :: "config \<Rightarrow> axis \<Rightarrow> machine \<Rightarrow> machine" where
  "ISR_pulse_axis cfg a m =
     (if bit (step_outbits (st m)) (STEP_BIT cfg a)
      then GPIO_write (GPIO_STEP a) (\<not> bit (step_port_invert_mask m) (STEP_BIT cfg a)) m
      else m)"

definition ISR_pulse :: "config \<Rightarrow> machine \<Rightarrow> machine" where
  "ISR_pulse cfg m = ISR_pulse_axis cfg Z_AXIS (ISR_pulse_axis cfg Y_AXIS (ISR_pulse_axis cfg X_AXIS m))"

text \<open>
  Lines 396-484: a segment is popped from the ring. The clamp of \<open>cycles_per_tick\<close>
  is written back into the ring slot; \<open>(uint16_t)(c * 0.75)\<close> is \<open>3 * c div 4\<close>. The
  read through \<open>st.exec_block\<close> fails on the null pointer.
\<close>

definition ISR_load_segment :: "config \<Rightarrow> machine \<Rightarrow> error + machine" where
  "ISR_load_segment cfg m =
     (let t = unat (segment_buffer_tail m);
          m1 = m\<lparr>st := (st m)\<lparr>exec_segment := Some t\<rparr>\<rparr>;
          m2 = (if cycles_per_tick (segment_buffer m1 t) < STEP_TIMER_MIN cfg
                then m1\<lparr>segment_buffer := (segment_buffer m1)
                          (t := (segment_buffer m1 t)\<lparr>cycles_per_tick := STEP_TIMER_MIN cfg\<rparr>)\<rparr>
                else m1);
          seg = segment_buffer m2 t;
          m3 = emit (TIM9_CCR1 (of_nat (3 * unat (cycles_per_tick seg) div 4)))
                 (emit (TIM9_ARR (cycles_per_tick seg)) m2);
          m4 = m3\<lparr>st := (st m3)\<lparr>step_count := n_step seg\<rparr>\<rparr>;
          m5 = (if exec_block_index (st m4) \<noteq> st_block_index seg
                then (let i = unat (st_block_index seg);
                          c = drop_bit 1 (step_event_count (st_block_buffer m4 i))
                      in m4\<lparr>st := (st m4)\<lparr>exec_block_index := st_block_index seg,
                                exec_block := Some i,
                                counter_x := c, counter_y := c, counter_z := c\<rparr>\<rparr>)
                else m4)
      in case exec_block (st m5) of
           None \<Rightarrow> Inl NullPointer
         | Some b \<Rightarrow>
             (let blk = st_block_buffer m5 b;
                  m6 = m5\<lparr>st := (st m5)\<lparr>dir_outbits :=
                            direction_bits blk XOR dir_port_invert_mask m5\<rparr>\<rparr>;
                  dir = (\<lambda>a. bit (dir_outbits (st m6)) (DIRECTION_BIT cfg a));
                  m7 = GPIO_write (GPIO_DIR Z_AXIS) (dir Z_AXIS)
                         (GPIO_write (GPIO_DIR Y_AXIS) (dir Y_AXIS)
                            (GPIO_write (GPIO_DIR X_AXIS) (dir X_AXIS) m6));
                  m8 = m7\<lparr>st := (st m7)\<lparr>st_steps :=
                            (\<lambda>a. drop_bit (unat (amass_level seg)) (steps blk a))\<rparr>\<rparr>
              in Inr (emit (Spindle_SetSpeed (spindle_pwm seg)) m8)))"

text \<open>
  Lines 511-568, for one axis: the block \<open>blk\<close> is \<open>*st.exec_block\<close> and the segment
  \<open>seg\<close> is \<open>*st.exec_segment\<close>. \<open>sys_position\<close> is an \<open>int32_t\<close>.
\<close>

definition ISR_bresenham_axis ::
  "config \<Rightarrow> Stepper_Block_t \<Rightarrow> Stepper_Segment_t \<Rightarrow> axis \<Rightarrow> machine \<Rightarrow> machine" where
  "ISR_bresenham_axis cfg blk seg a m =
     (let m1 = m\<lparr>st := set_counter a (counter a (st m) + st_steps (st m) a) (st m)\<rparr>
      in if counter a (st m1) > step_event_count blk
         then (let m2 = m1\<lparr>st := (st m1)\<lparr>step_outbits :=
                           step_outbits (st m1) OR push_bit (STEP_BIT cfg a) 1\<rparr>\<rparr>;
                   m3 = m2\<lparr>st := set_counter a (counter a (st m2) - step_event_count blk) (st m2)\<rparr>
               in if backlash_motion seg = 0
                  then (if bit (direction_bits blk) (DIRECTION_BIT cfg a)
                        then m3\<lparr>sys_position := (sys_position m3)(a := sys_position m3 a - 1)\<rparr>
                        else m3\<lparr>sys_position := (sys_position m3)(a := sys_position m3 a + 1)\<rparr>)
                  else m3)
         else m1)"

text \<open>Lines 575-583: the segment is dropped when its last step event is done.\<close>

definition ISR_complete :: "config \<Rightarrow> machine \<Rightarrow> machine" where
  "ISR_complete cfg m =
     (let m1 = m\<lparr>st := (st m)\<lparr>step_count := step_count (st m) - 1\<rparr>\<rparr>
      in if step_count (st m1) = 0
         then m1\<lparr>st := (st m1)\<lparr>exec_segment := None\<rparr>,
                 segment_buffer_tail :=
                   (if unat (segment_buffer_tail m1 + 1) = SEGMENT_BUFFER_SIZE cfg
                    then 0 else segment_buffer_tail m1 + 1)\<rparr>
         else m1)"

text \<open>
  Lines 507-568: the step bits are cleared and the Bresenham tracer runs on the three
  axes. The reads through \<open>st.exec_block\<close> and \<open>st.exec_segment\<close> fail on the null
  pointer.
\<close>

definition ISR_bresenham :: "config \<Rightarrow> machine \<Rightarrow> error + machine" where
  "ISR_bresenham cfg m =
     (let m2 = m\<lparr>st := (st m)\<lparr>step_outbits := 0\<rparr>\<rparr>
      in case (exec_block (st m2), exec_segment (st m2)) of
           (Some b, Some i) \<Rightarrow>
             (let blk = st_block_buffer m2 b;
                  seg = segment_buffer m2 i;
                  m3 = ISR_bresenham_axis cfg blk seg X_AXIS m2;
                  m4 = ISR_bresenham_axis cfg blk seg Y_AXIS m3
              in Inr (ISR_bresenham_axis cfg blk seg Z_AXIS m4))
         | _ \<Rightarrow> Inl NullPointer)"

text \<open>Lines 570-573: the homing lock masks the step bits.\<close>

definition ISR_homing_lock :: "config \<Rightarrow> machine \<Rightarrow> machine" where
  "ISR_homing_lock cfg m =
     (if sys_state m = STATE_HOMING cfg
      then m\<lparr>st := (st m)\<lparr>step_outbits := step_outbits (st m) AND sys_homing_axis_lock m\<rparr>\<rparr>
      else m)"

text \<open>Lines 502-505: the probe is polled while it is armed.\<close>

definition ISR_probe :: "config \<Rightarrow> machine \<Rightarrow> machine" where
  "ISR_probe cfg m = (if sys_probe_state m = PROBE_ACTIVE cfg then Probe_StateMonitor cfg m else m)"

text \<open>Lines 502-583: what a tick does once a segment is loaded.\<close>

definition ISR_step :: "config \<Rightarrow> machine \<Rightarrow> error + machine" where
  "ISR_step cfg m =
     (case ISR_bresenham cfg (ISR_probe cfg m) of
        Inl e \<Rightarrow> Inl e
      | Inr m5 \<Rightarrow> Inr (ISR_complete cfg (ISR_homing_lock cfg m5)))"

text \<open>
  Lines 488-497: the ring is empty. The read of \<open>st.exec_block->is_pwm_rate_adjusted\<close>
  has no null check.
\<close>

definition ISR_idle :: "config \<Rightarrow> machine \<Rightarrow> error + machine" where
  "ISR_idle cfg m =
     (let m1 = Stepper_Disable cfg 0 m
      in case exec_block (st m1) of
           None \<Rightarrow> Inl NullPointer
         | Some b \<Rightarrow>
             (let m2 = (if is_pwm_rate_adjusted (st_block_buffer m1 b) \<noteq> 0
                        then emit (Spindle_SetSpeed (SPINDLE_PWM_OFF_VALUE cfg)) m1 else m1)
              in Inr (m2\<lparr>sys_rt_exec_state := sys_rt_exec_state m2 OR EXEC_CYCLE_STOP cfg\<rparr>)))"

definition Stepper_MainISR :: "config \<Rightarrow> machine \<Rightarrow> error + machine" where
  "Stepper_MainISR cfg m =
     (let m1 = ISR_pulse cfg m
      in if exec_segment (st m1) = None
         then (if segment_buffer_head m1 \<noteq> segment_buffer_tail m1
               then (case ISR_load_segment cfg m1 of
                       Inl e \<Rightarrow> Inl e
                     | Inr m2 \<Rightarrow> ISR_step cfg m2)
               else ISR_idle cfg m1)
         else ISR_step cfg m1)"


section \<open>The segment preparer\<close>

text \<open>
  Modelled from the spec: the planner (Planner.c) is not among the sources. Section 6:
  \<open>GetCurrentBlock\<close> and \<open>GetSystemMotionBlock\<close> give a pointer to the next block or
  null, \<open>DiscardCurrentBlock\<close> releases the head block. The exit speed and the nominal
  speed the planner reports are parameters (fields of \<open>config\<close>).
\<close>

definition Planner_GetCurrentBlock :: "machine \<Rightarrow> nat option" where
  "Planner_GetCurrentBlock m = (case planner_queue m of [] \<Rightarrow> None | b # _ \<Rightarrow> Some b)"

definition Planner_GetSystemMotionBlock :: "machine \<Rightarrow> nat option" where
  "Planner_GetSystemMotionBlock m = planner_sys_motion_block m"

definition Planner_DiscardCurrentBlock :: "machine \<Rightarrow> machine" where
  "Planner_DiscardCurrentBlock m = m\<lparr>planner_queue := tl (planner_queue m)\<rparr>"

text \<open>
  A preparer step either goes on with the loop or leaves \<open>Stepper_PrepareBuffer\<close>
  (a \<open>return\<close> statement).
\<close>

datatype flow = Continue machine | Return machine

text \<open>
  The constants \<open>DT_SEGMENT\<close>, that is \<open>(1.0/(ACCELERATION_TICKS_PER_SECOND*60.0))\<close>,
  and \<open>REQ_MM_INCREMENT_SCALAR\<close>, that is \<open>1.25\<close>, are of type \<open>double\<close>.
\<close>

definition DT_SEGMENT :: "config \<Rightarrow> fp" where
  "DT_SEGMENT cfg =
     fp_div f64 (Finite 1)
       (fp_mul f64 (Finite (real (ACCELERATION_TICKS_PER_SECOND cfg))) (Finite 60))"

definition REQ_MM_INCREMENT_SCALAR :: fp where
  "REQ_MM_INCREMENT_SCALAR = Finite (5 / 4)"

text \<open>
  Conversion of a floating value to an unsigned integer type truncates towards zero;
  the behaviour is undefined when the value is an infinity or a NaN or when the
  truncated value is not representable.
\<close>

definition float_to_uint16 :: "fp \<Rightarrow> error + 16 word" where
  "float_to_uint16 a =
     (case a of
        Finite x \<Rightarrow>
          (if x \<le> - 1 \<or> 65536 \<le> x then Inl FloatOutOfRange
           else if x < 0 then Inr 0 else Inr (word_of_int \<lfloor>x\<rfloor>))
      | NegZero \<Rightarrow> Inr 0
      | _ \<Rightarrow> Inl FloatOutOfRange)"

definition float_to_uint32 :: "fp \<Rightarrow> error + 32 word" where
  "float_to_uint32 a =
     (case a of
        Finite x \<Rightarrow>
          (if x \<le> - 1 \<or> 4294967296 \<le> x then Inl FloatOutOfRange
           else if x < 0 then Inr 0 else Inr (word_of_int \<lfloor>x\<rfloor>))
      | NegZero \<Rightarrow> Inr 0
      | _ \<Rightarrow> Inl FloatOutOfRange)"

text \<open>
  Lines 823-868: a new planner block is copied into the next stepper block slot.
  \<open>sqrt\<close> is the \<open>double\<close> function; its result is converted to \<open>float\<close> by the
  assignment, and so are the quotients with a \<open>double\<close> constant.
\<close>

definition prep_new_block :: "config \<Rightarrow> nat \<Rightarrow> machine \<Rightarrow> machine" where
  "prep_new_block cfg b m =
     (let idx = Stepper_NextBlockIndex cfg (prep_st_block_index (prep m));
          i = unat idx;
          pl = block_buffer m b;
          m1 = m\<lparr>prep := (prep m)\<lparr>prep_st_block_index := idx\<rparr>, st_prep_block := Some i\<rparr>;
          m2 = m1\<lparr>st_block_buffer := (st_block_buffer m1)
                 (i := (st_block_buffer m1 i)
                    \<lparr>steps := (\<lambda>a. push_bit MAX_AMASS_LEVEL (pl_steps pl a)),
                     step_event_count := push_bit MAX_AMASS_LEVEL (pl_step_event_count pl),
                     direction_bits := pl_direction_bits pl\<rparr>)\<rparr>;
          sr = f32 (real (unat (pl_step_event_count pl)));
          spm = fp_div f32 sr (millimeters pl);
          m3 = m2\<lparr>prep := (prep m2)\<lparr>steps_remaining := sr, step_per_mm := spm,
                    req_mm_increment := to_f32 (fp_div f64 REQ_MM_INCREMENT_SCALAR spm),
                    dt_remainder := Finite 0\<rparr>\<rparr>;
          m4 = (if BIT_IS_TRUE (sys_step_control m3) (STEP_CONTROL_EXECUTE_HOLD cfg)
                   \<or> BIT_IS_TRUE (recalculate_flag (prep m3)) PREP_FLAG_DECEL_OVERRIDE
                then m3\<lparr>prep := (prep m3)\<lparr>current_speed := exit_speed (prep m3),
                          recalculate_flag :=
                            recalculate_flag (prep m3) AND NOT PREP_FLAG_DECEL_OVERRIDE\<rparr>,
                        block_buffer := (block_buffer m3)
                          (b := (block_buffer m3 b)\<lparr>entry_speed_sqr :=
                                  fp_mul f32 (exit_speed (prep m3)) (exit_speed (prep m3))\<rparr>)\<rparr>
                else m3\<lparr>prep := (prep m3)\<lparr>current_speed :=
                                  to_f32 (fp_sqrt f64 (entry_speed_sqr pl))\<rparr>\<rparr>);
          m5 = m4\<lparr>st_block_buffer := (st_block_buffer m4)
                 (i := (st_block_buffer m4 i)\<lparr>is_pwm_rate_adjusted := 0\<rparr>)\<rparr>
      in if BIT_IS_TRUE (settings_flags m5) (BITFLAG_LASER_MODE cfg)
            \<and> BIT_IS_TRUE (pl_condition pl) (PL_COND_FLAG_SPINDLE_CCW cfg)
         then m5\<lparr>prep := (prep m5)\<lparr>inv_rate :=
                           to_f32 (fp_div f64 (Finite 1) (programmed_rate pl))\<rparr>,
                 st_block_buffer := (st_block_buffer m5)
                   (i := (st_block_buffer m5 i)\<lparr>is_pwm_rate_adjusted := 1\<rparr>)\<rparr>
         else m5)"

text \<open>
  Lines 896-970: the velocity profile in normal operation. \<open>0.5\<close> and \<open>2.0\<close> are
  \<open>double\<close> constants, \<open>2\<close> is an \<open>int\<close>.
\<close>

definition prep_profile_normal ::
  "config \<Rightarrow> machine \<Rightarrow> Planner_Block_t \<Rightarrow> fp \<Rightarrow> Stepper_PrepData_t" where
  "prep_profile_normal cfg m pl inv_2_accel =
     (let sys_motion = BIT_IS_TRUE (sys_step_control m) (STEP_CONTROL_EXECUTE_SYS_MOTION cfg);
          p0 = (prep m)\<lparr>ramp_type := RAMP_ACCEL, accelerate_until := millimeters pl\<rparr>;
          exit_speed_sqr = (if sys_motion then Finite 0
                            else Planner_GetExecBlockExitSpeedSqr cfg m);
          p1 = p0\<lparr>exit_speed := (if sys_motion then Finite 0
                                  else to_f32 (fp_sqrt f64 exit_speed_sqr))\<rparr>;
          nominal_speed = Planner_ComputeProfileNominalSpeed cfg pl;
          nominal_speed_sqr = fp_mul f32 nominal_speed nominal_speed;
          intersect_distance =
            to_f32 (fp_mul f64 (Finite (1 / 2))
                      (fp_add f32 (millimeters pl)
                         (fp_mul f32 inv_2_accel
                            (fp_sub f32 (entry_speed_sqr pl) exit_speed_sqr))))
      in if fp_lt nominal_speed_sqr (entry_speed_sqr pl)
         then (let p2 = p1\<lparr>accelerate_until :=
                          fp_sub f32 (millimeters pl)
                            (fp_mul f32 inv_2_accel
                               (fp_sub f32 (entry_speed_sqr pl) nominal_speed_sqr))\<rparr>
               in if fp_le (accelerate_until p2) (Finite 0)
                  then p2\<lparr>ramp_type := RAMP_DECEL,
                          exit_speed :=
                            to_f32 (fp_sqrt f64
                              (fp_sub f32 (entry_speed_sqr pl)
                                 (fp_mul f32 (fp_mul f32 (Finite 2) (acceleration pl))
                                    (millimeters pl)))),
                          recalculate_flag := recalculate_flag p2 OR PREP_FLAG_DECEL_OVERRIDE\<rparr>
                  else p2\<lparr>decelerate_after :=
                            fp_mul f32 inv_2_accel (fp_sub f32 nominal_speed_sqr exit_speed_sqr),
                          maximum_speed := nominal_speed,
                          ramp_type := RAMP_DECEL_OVERRIDE\<rparr>)
         else if fp_lt (Finite 0) intersect_distance
         then (if fp_lt intersect_distance (millimeters pl)
               then (let p2 = p1\<lparr>decelerate_after :=
                                fp_mul f32 inv_2_accel
                                  (fp_sub f32 nominal_speed_sqr exit_speed_sqr)\<rparr>
                     in if fp_lt (decelerate_after p2) intersect_distance
                        then (let p3 = p2\<lparr>maximum_speed := nominal_speed\<rparr>
                              in if fp_eq (entry_speed_sqr pl) nominal_speed_sqr
                                 then p3\<lparr>ramp_type := RAMP_CRUISE\<rparr>
                                 else p3\<lparr>accelerate_until :=
                                          fp_sub f32 (accelerate_until p3)
                                            (fp_mul f32 inv_2_accel
                                               (fp_sub f32 nominal_speed_sqr
                                                  (entry_speed_sqr pl)))\<rparr>)
                        else p2\<lparr>accelerate_until := intersect_distance,
                                decelerate_after := intersect_distance,
                                maximum_speed :=
                                  to_f32 (fp_sqrt f64
                                    (fp_add f64
                                       (fp_mul f64 (fp_mul f64 (Finite 2) (acceleration pl))
                                          intersect_distance)
                                       exit_speed_sqr))\<rparr>)
               else p1\<lparr>ramp_type := RAMP_DECEL\<rparr>)
         else p1\<lparr>accelerate_until := Finite 0, maximum_speed := exit_speed p1\<rparr>)"

text \<open>Lines 877-972: the velocity profile of the block, forced deceleration included.\<close>

definition prep_profile :: "config \<Rightarrow> nat \<Rightarrow> machine \<Rightarrow> machine" where
  "prep_profile cfg b m =
     (let pl = block_buffer m b;
          m1 = m\<lparr>prep := (prep m)\<lparr>mm_complete := Finite 0\<rparr>\<rparr>;
          inv_2_accel = to_f32 (fp_div f64 (Finite (1 / 2)) (acceleration pl));
          m2 = (if BIT_IS_TRUE (sys_step_control m1) (STEP_CONTROL_EXECUTE_HOLD cfg)
                then (let p = (prep m1)\<lparr>ramp_type := RAMP_DECEL\<rparr>;
                          decel_dist = fp_sub f32 (millimeters pl)
                                         (fp_mul f32 inv_2_accel (entry_speed_sqr pl))
                      in if fp_lt decel_dist (Finite 0)
                         then m1\<lparr>prep := p\<lparr>exit_speed :=
                                   to_f32 (fp_sqrt f64
                                     (fp_sub f32 (entry_speed_sqr pl)
                                        (fp_mul f32 (fp_mul f32 (Finite 2) (acceleration pl))
                                           (millimeters pl))))\<rparr>\<rparr>
                         else m1\<lparr>prep := p\<lparr>mm_complete := decel_dist,
                                             exit_speed := Finite 0\<rparr>\<rparr>)
                else m1\<lparr>prep := prep_profile_normal cfg m1 pl inv_2_accel\<rparr>)
      in m2\<lparr>sys_step_control :=
              sys_step_control m2 OR STEP_CONTROL_UPDATE_SPINDLE_PWM cfg\<rparr>)"

text \<open>
  Lines 795-973: no planner block is held. The planner is asked for one; without one
  the preparer returns.
\<close>

definition prep_acquire :: "config \<Rightarrow> machine \<Rightarrow> flow" where
  "prep_acquire cfg m =
     (let m1 = m\<lparr>pl_block :=
                  (if BIT_IS_TRUE (sys_step_control m) (STEP_CONTROL_EXECUTE_SYS_MOTION cfg)
                   then Planner_GetSystemMotionBlock m else Planner_GetCurrentBlock m)\<rparr>
      in case pl_block m1 of
           None \<Rightarrow> Return m1
         | Some b \<Rightarrow>
             (let m2 = (if BIT_IS_TRUE (recalculate_flag (prep m1)) PREP_FLAG_RECALCULATE
                        then (if PARKING_ENABLE cfg
                                 \<and> BIT_IS_TRUE (recalculate_flag (prep m1)) PREP_FLAG_PARKING
                              then m1\<lparr>prep := (prep m1)\<lparr>recalculate_flag :=
                                        recalculate_flag (prep m1) AND NOT PREP_FLAG_RECALCULATE\<rparr>\<rparr>
                              else m1\<lparr>prep := (prep m1)\<lparr>recalculate_flag := 0\<rparr>\<rparr>)
                        else prep_new_block cfg b m1)
              in Continue (prep_profile cfg b m2)))"

text \<open>
  The local variables of the segment loop (\<open>mm_var\<close> and \<open>speed_var\<close> are set before
  they are read in every branch, so they are not carried from one pass to the next).
\<close>

record ramp_locals =
  dt_max :: fp
  dt :: fp
  time_var :: fp
  mm_remaining :: fp

text \<open>
  Lines 1010-1085: the \<open>switch\<close> over the ramp state. An expression with the
  \<open>double\<close> constant \<open>0.5\<close> or \<open>2.0\<close> is evaluated in \<open>double\<close> from that operand
  on and converted to \<open>float\<close> by the assignment; \<open>mm_remaining -= e\<close> with a
  \<open>double\<close> \<open>e\<close> subtracts in \<open>double\<close>.
\<close>

definition ramp_switch ::
  "Planner_Block_t \<Rightarrow> ramp_locals \<times> Stepper_PrepData_t \<Rightarrow> ramp_locals \<times> Stepper_PrepData_t" where
  "ramp_switch pl vp =
     (let v = fst vp; p = snd vp
      in if ramp_type p = RAMP_DECEL_OVERRIDE
         then (let speed_var = fp_mul f32 (acceleration pl) (time_var v);
                   mm_var = to_f32 (fp_mul f64 (time_var v)
                              (fp_sub f64 (current_speed p)
                                 (fp_mul f64 (Finite (1 / 2)) speed_var)));
                   v1 = v\<lparr>mm_remaining := fp_sub f32 (mm_remaining v) mm_var\<rparr>
               in if fp_lt (mm_remaining v1) (accelerate_until p) \<or> fp_le mm_var (Finite 0)
                  then (v1\<lparr>mm_remaining := accelerate_until p,
                           time_var :=
                             to_f32 (fp_div f64
                               (fp_mul f64 (Finite 2)
                                  (fp_sub f32 (millimeters pl) (accelerate_until p)))
                               (fp_add f32 (current_speed p) (maximum_speed p)))\<rparr>,
                        p\<lparr>ramp_type := RAMP_CRUISE, current_speed := maximum_speed p\<rparr>)
                  else (v1, p\<lparr>current_speed := fp_sub f32 (current_speed p) speed_var\<rparr>))
         else if ramp_type p = RAMP_ACCEL
         then (let speed_var = fp_mul f32 (acceleration pl) (time_var v);
                   v1 = v\<lparr>mm_remaining :=
                            to_f32 (fp_sub f64 (mm_remaining v)
                              (fp_mul f64 (time_var v)
                                 (fp_add f64 (current_speed p)
                                    (fp_mul f64 (Finite (1 / 2)) speed_var))))\<rparr>
               in if fp_lt (mm_remaining v1) (accelerate_until p)
                  then (v1\<lparr>mm_remaining := accelerate_until p,
                           time_var :=
                             to_f32 (fp_div f64
                               (fp_mul f64 (Finite 2)
                                  (fp_sub f32 (millimeters pl) (accelerate_until p)))
                               (fp_add f32 (current_speed p) (maximum_speed p)))\<rparr>,
                        p\<lparr>ramp_type := (if fp_eq (accelerate_until p) (decelerate_after p)
                                         then RAMP_DECEL else RAMP_CRUISE),
                          current_speed := maximum_speed p\<rparr>)
                  else (v1, p\<lparr>current_speed := fp_add f32 (current_speed p) speed_var\<rparr>))
         else if ramp_type p = RAMP_CRUISE
         then (let mm_var = fp_sub f32 (mm_remaining v)
                              (fp_mul f32 (maximum_speed p) (time_var v))
               in if fp_lt mm_var (decelerate_after p)
                  then (v\<lparr>time_var := fp_div f32
                                        (fp_sub f32 (mm_remaining v) (decelerate_after p))
                                        (maximum_speed p),
                          mm_remaining := decelerate_after p\<rparr>,
                        p\<lparr>ramp_type := RAMP_DECEL\<rparr>)
                  else (v\<lparr>mm_remaining := mm_var\<rparr>, p))
         else (let speed_var = fp_mul f32 (acceleration pl) (time_var v);
                   mm_var = to_f32 (fp_sub f64 (mm_remaining v)
                              (fp_mul f64 (time_var v)
                                 (fp_sub f64 (current_speed p)
                                    (fp_mul f64 (Finite (1 / 2)) speed_var))))
               in if fp_lt speed_var (current_speed p) \<and> fp_lt (mm_complete p) mm_var
                  then (v\<lparr>mm_remaining := mm_var\<rparr>,
                        p\<lparr>current_speed := fp_sub f32 (current_speed p) speed_var\<rparr>)
                  else (v\<lparr>time_var :=
                            to_f32 (fp_div f64
                              (fp_mul f64 (Finite 2)
                                 (fp_sub f32 (mm_remaining v) (mm_complete p)))
                              (fp_add f32 (current_speed p) (exit_speed p))),
                          mm_remaining := mm_complete p\<rparr>,
                        p\<lparr>current_speed := exit_speed p\<rparr>)))"

text \<open>
  Lines 1009-1103: the \<open>do ... while\<close> loop. It need not end (a cruise at speed zero
  makes no progress), so the result is an option: \<open>None\<close> when the loop runs forever.
  \<open>dt_max += DT_SEGMENT\<close> adds in \<open>double\<close>.
\<close>

partial_function (option) ramp_loop ::
  "fp \<Rightarrow> Planner_Block_t \<Rightarrow> fp \<Rightarrow> ramp_locals \<times> Stepper_PrepData_t
     \<Rightarrow> (ramp_locals \<times> Stepper_PrepData_t) option" where
  "ramp_loop dt_segment pl minimum_mm vp =
     (let vp1 = ramp_switch pl vp;
          v2 = (fst vp1)\<lparr>dt := fp_add f32 (dt (fst vp1)) (time_var (fst vp1))\<rparr>;
          p2 = snd vp1
      in if fp_lt (dt v2) (dt_max v2)
         then (let v3 = v2\<lparr>time_var := fp_sub f32 (dt_max v2) (dt v2)\<rparr>
               in if fp_lt (mm_complete p2) (mm_remaining v3)
                  then ramp_loop dt_segment pl minimum_mm (v3, p2)
                  else Some (v3, p2))
         else if fp_lt minimum_mm (mm_remaining v2)
         then (let v3 = v2\<lparr>dt_max := to_f32 (fp_add f64 (dt_max v2) dt_segment),
                          time_var := fp_sub f32 (to_f32 (fp_add f64 (dt_max v2) dt_segment))
                                        (dt v2)\<rparr>
               in if fp_lt (mm_complete p2) (mm_remaining v3)
                  then ramp_loop dt_segment pl minimum_mm (v3, p2)
                  else Some (v3, p2))
         else Some (v2, p2))"

text \<open>
  Lines 976-1103: the new segment is started in the ring slot at \<open>segment_buffer_head\<close>
  and the ramp is integrated.
\<close>

definition prep_carve :: "config \<Rightarrow> nat \<Rightarrow> machine \<Rightarrow> (ramp_locals \<times> machine) option" where
  "prep_carve cfg b m =
     (let h = unat (segment_buffer_head m);
          pl = block_buffer m b;
          m1 = m\<lparr>segment_buffer := (segment_buffer m)
                 (h := (segment_buffer m h)\<lparr>st_block_index := prep_st_block_index (prep m),
                                           backlash_motion := pl_backlash_motion pl\<rparr>)\<rparr>;
          v0 = \<lparr>dt_max = to_f32 (DT_SEGMENT cfg), dt = Finite 0,
                time_var = to_f32 (DT_SEGMENT cfg), mm_remaining = millimeters pl\<rparr>;
          minimum_mm =
            (if fp_lt (fp_sub f32 (mm_remaining v0) (req_mm_increment (prep m1))) (Finite 0)
             then Finite 0
             else fp_sub f32 (mm_remaining v0) (req_mm_increment (prep m1)))
      in map_option (\<lambda>vp. (fst vp, m1\<lparr>prep := snd vp\<rparr>))
           (ramp_loop (DT_SEGMENT cfg) pl minimum_mm (v0, prep m1)))"

text \<open>Lines 1109-1130: the spindle PWM of the segment.\<close>

definition prep_spindle :: "config \<Rightarrow> nat \<Rightarrow> machine \<Rightarrow> error + machine" where
  "prep_spindle cfg b m =
     (case st_prep_block m of
        None \<Rightarrow> Inl NullPointer
      | Some i \<Rightarrow>
          (let blk = st_block_buffer m i;
               pl = block_buffer m b;
               h = unat (segment_buffer_head m);
               m1 = (if is_pwm_rate_adjusted blk \<noteq> 0
                        \<or> BIT_IS_TRUE (sys_step_control m) (STEP_CONTROL_UPDATE_SPINDLE_PWM cfg)
                     then (let m2 =
                                 (if BIT_IS_TRUE (pl_condition pl)
                                       (PL_COND_FLAG_SPINDLE_CW cfg OR PL_COND_FLAG_SPINDLE_CCW cfg)
                                  then (let rpm = (if is_pwm_rate_adjusted blk \<noteq> 0
                                                   then fp_mul f32 (spindle_speed pl)
                                                          (fp_mul f32 (current_speed (prep m))
                                                             (inv_rate (prep m)))
                                                   else spindle_speed pl)
                                        in m\<lparr>prep := (prep m)\<lparr>current_spindle_pwm :=
                                                 Spindle_ComputePwmValue cfg rpm\<rparr>\<rparr>)
                                  else m\<lparr>sys_spindle_speed := Finite 0,
                                         prep := (prep m)\<lparr>current_spindle_pwm :=
                                                   SPINDLE_PWM_OFF_VALUE cfg\<rparr>\<rparr>)
                           in m2\<lparr>sys_step_control := sys_step_control m2
                                   AND NOT (STEP_CONTROL_UPDATE_SPINDLE_PWM cfg)\<rparr>)
                     else m)
           in Inr (m1\<lparr>segment_buffer := (segment_buffer m1)
                        (h := (segment_buffer m1 h)\<lparr>spindle_pwm :=
                                current_spindle_pwm (prep m1)\<rparr>)\<rparr>)))"

text \<open>
  Lines 1180-1205: the AMASS level of the segment, from the cycles per step before
  AMASS; \<open>n_step\<close> is shifted in 16 bits.
\<close>

definition prep_amass :: "config \<Rightarrow> 32 word \<Rightarrow> Stepper_Segment_t \<Rightarrow> Stepper_Segment_t" where
  "prep_amass cfg cycles seg =
     (let sc = (if cycles < AMASS_LEVEL1 cfg
                then (seg\<lparr>amass_level := 0\<rparr>, cycles)
                else (let seg1 = seg\<lparr>amass_level :=
                                      (if cycles < AMASS_LEVEL2 cfg then 1
                                       else if cycles < AMASS_LEVEL3 cfg then 2 else 3)\<rparr>
                      in (seg1\<lparr>n_step := push_bit (unat (amass_level seg1)) (n_step seg1)\<rparr>,
                          drop_bit (unat (amass_level seg1)) cycles)))
      in if snd sc < 2 ^ 16
         then (fst sc)\<lparr>cycles_per_tick := ucast (snd sc)\<rparr>
         else (fst sc)\<lparr>cycles_per_tick := 0xFFFF\<rparr>)"

text \<open>\<open>STEP_CONTROL_END_MOTION\<close> is set, with the partial-block flag in a parking build.\<close>

definition prep_end_motion :: "config \<Rightarrow> bool \<Rightarrow> machine \<Rightarrow> machine" where
  "prep_end_motion cfg partial m =
     (let m1 = m\<lparr>sys_step_control := sys_step_control m OR STEP_CONTROL_END_MOTION cfg\<rparr>
      in if partial \<and> PARKING_ENABLE cfg
            \<and> \<not> BIT_IS_TRUE (recalculate_flag (prep m1)) PREP_FLAG_PARKING
         then m1\<lparr>prep := (prep m1)\<lparr>recalculate_flag :=
                   recalculate_flag (prep m1) OR PREP_FLAG_HOLD_PARTIAL_BLOCK\<rparr>\<rparr>
         else m1)"

text \<open>Lines 1219-1244: the exit conditions after a segment is committed.\<close>

definition prep_exit :: "config \<Rightarrow> fp \<Rightarrow> machine \<Rightarrow> flow" where
  "prep_exit cfg mm m =
     (if fp_eq mm (mm_complete (prep m))
      then (if fp_lt (Finite 0) mm then Return (prep_end_motion cfg True m)
            else if BIT_IS_TRUE (sys_step_control m) (STEP_CONTROL_EXECUTE_SYS_MOTION cfg)
            then Return (prep_end_motion cfg False m)
            else Continue (Planner_DiscardCurrentBlock (m\<lparr>pl_block := None\<rparr>)))
      else Continue m)"

text \<open>
  Lines 1207-1216: the segment in the slot at \<open>segment_buffer_head\<close> is published and
  the planner block and the step bookkeeping are updated.
\<close>

definition prep_commit :: "config \<Rightarrow> nat \<Rightarrow> fp \<Rightarrow> fp \<Rightarrow> fp \<Rightarrow> machine \<Rightarrow> machine" where
  "prep_commit cfg b mm n_steps_remaining new_dt_remainder m =
     (let m1 = m\<lparr>segment_buffer_head := segment_next_head m\<rparr>;
          m2 = m1\<lparr>segment_next_head :=
                   (if unat (segment_next_head m1 + 1) = SEGMENT_BUFFER_SIZE cfg
                    then 0 else segment_next_head m1 + 1)\<rparr>
      in m2\<lparr>block_buffer := (block_buffer m2)(b := (block_buffer m2 b)\<lparr>millimeters := mm\<rparr>),
            prep := (prep m2)\<lparr>steps_remaining := n_steps_remaining,
                              dt_remainder := new_dt_remainder\<rparr>\<rparr>)"

text \<open>
  Lines 1143-1146: the step count of the segment before AMASS, a \<open>float\<close> difference
  converted to the 16-bit field \<open>n_step\<close>.
\<close>

definition segment_n_step :: "ramp_locals \<Rightarrow> machine \<Rightarrow> error + 16 word" where
  "segment_n_step v m =
     (let step_dist_remaining = fp_mul f32 (step_per_mm (prep m)) (mm_remaining v);
          n_steps_remaining = to_f32 (fp_ceil step_dist_remaining);
          last_n_steps_remaining = to_f32 (fp_ceil (steps_remaining (prep m)))
      in float_to_uint16 (fp_sub f32 last_n_steps_remaining n_steps_remaining))"

text \<open>
  Lines 1171-1176: the adjusted inverse step rate and the timer cycles per step. The
  integer \<open>TICKS_PER_MICROSECOND*1000000*60\<close> (taken within the range of its type) is
  converted to \<open>float\<close> for the product.
\<close>

definition segment_inv_rate :: "ramp_locals \<Rightarrow> machine \<Rightarrow> fp" where
  "segment_inv_rate v m =
     (let step_dist_remaining = fp_mul f32 (step_per_mm (prep m)) (mm_remaining v);
          last_n_steps_remaining = to_f32 (fp_ceil (steps_remaining (prep m)));
          dt1 = fp_add f32 (dt v) (dt_remainder (prep m))
      in fp_div f32 dt1 (fp_sub f32 last_n_steps_remaining step_dist_remaining))"

definition segment_cycles :: "config \<Rightarrow> ramp_locals \<Rightarrow> machine \<Rightarrow> error + 32 word" where
  "segment_cycles cfg v m =
     float_to_uint32
       (fp_ceil (fp_mul f32 (f32 (real (TICKS_PER_MICROSECOND cfg * 1000000 * 60)))
                   (segment_inv_rate v m)))"

text \<open>Lines 1143-1244: step count and rate of the segment, AMASS, commit and exit.\<close>

definition prep_steps :: "config \<Rightarrow> nat \<Rightarrow> ramp_locals \<Rightarrow> machine \<Rightarrow> error + flow" where
  "prep_steps cfg b v m =
     (let h = unat (segment_buffer_head m);
          step_dist_remaining = fp_mul f32 (step_per_mm (prep m)) (mm_remaining v);
          n_steps_remaining = to_f32 (fp_ceil step_dist_remaining)
      in case segment_n_step v m of
           Inl e \<Rightarrow> Inl e
         | Inr n \<Rightarrow>
             (let m1 = m\<lparr>segment_buffer := (segment_buffer m)
                            (h := (segment_buffer m h)\<lparr>n_step := n\<rparr>)\<rparr>
              in if n = 0 \<and> BIT_IS_TRUE (sys_step_control m1) (STEP_CONTROL_EXECUTE_HOLD cfg)
                 then Inr (Return (prep_end_motion cfg True m1))
                 else (case segment_cycles cfg v m1 of
                         Inl e \<Rightarrow> Inl e
                       | Inr cycles \<Rightarrow>
                           (let m2 = m1\<lparr>segment_buffer := (segment_buffer m1)
                                          (h := prep_amass cfg cycles (segment_buffer m1 h))\<rparr>;
                                m3 = prep_commit cfg b (mm_remaining v) n_steps_remaining
                                       (fp_mul f32
                                          (fp_sub f32 n_steps_remaining step_dist_remaining)
                                          (segment_inv_rate v m1)) m2
                            in Inr (prep_exit cfg (mm_remaining v) m3)))))"

definition flow_machine :: "flow \<Rightarrow> machine" where
  "flow_machine f = (case f of Continue m \<Rightarrow> m | Return m \<Rightarrow> m)"

text \<open>
  One pass of the \<open>while\<close> loop of \<open>Stepper_PrepareBuffer\<close>: \<open>None\<close> when the ramp
  loop does not end, an error where the C code has undefined behaviour.
\<close>

definition prep_iteration :: "config \<Rightarrow> machine \<Rightarrow> (error + flow) option" where
  "prep_iteration cfg m =
     (case (if pl_block m = None then prep_acquire cfg m else Continue m) of
        Return m1 \<Rightarrow> Some (Inr (Return m1))
      | Continue m1 \<Rightarrow>
          (case pl_block m1 of
             None \<Rightarrow> Some (Inl NullPointer)
           | Some b \<Rightarrow>
               (case prep_carve cfg b m1 of
                  None \<Rightarrow> None
                | Some vm \<Rightarrow>
                    (case prep_spindle cfg b (snd vm) of
                       Inl e \<Rightarrow> Some (Inl e)
                     | Inr m3 \<Rightarrow> Some (prep_steps cfg b (fst vm) m3)))))"

text \<open>
  The \<open>while\<close> loop (line 793). The interrupt is not interleaved with a call: the tail
  index is the one found on entry.
\<close>

partial_function (option) prep_loop :: "config \<Rightarrow> machine \<Rightarrow> (error + machine) option" where
  "prep_loop cfg m =
     (if segment_buffer_tail m \<noteq> segment_next_head m
      then Option.bind (prep_iteration cfg m)
             (\<lambda>r. case r of
                     Inl e \<Rightarrow> Some (Inl e)
                   | Inr (Return m1) \<Rightarrow> Some (Inr m1)
                   | Inr (Continue m1) \<Rightarrow> prep_loop cfg m1)
      else Some (Inr m))"

definition Stepper_PrepareBuffer :: "config \<Rightarrow> machine \<Rightarrow> (error + machine) option" where
  "Stepper_PrepareBuffer cfg m =
     (if BIT_IS_TRUE (sys_step_control m) (STEP_CONTROL_END_MOTION cfg)
      then Some (Inr m)
      else prep_loop cfg m)"


section \<open>The ring of segments\<close>

text \<open>
  The relation between the two head indices of the ring: \<open>segment_next_head\<close> is the
  index after \<open>segment_buffer_head\<close>, modulo \<open>SEGMENT_BUFFER_SIZE\<close>, and the head and
  tail indices are indices of the ring.
\<close>

definition ring_inv :: "config \<Rightarrow> machine \<Rightarrow> bool" where
  "ring_inv cfg m \<longleftrightarrow>
     unat (segment_buffer_head m) < SEGMENT_BUFFER_SIZE cfg \<and>
     unat (segment_buffer_tail m) < SEGMENT_BUFFER_SIZE cfg \<and>
     unat (segment_next_head m) = (unat (segment_buffer_head m) + 1) mod SEGMENT_BUFFER_SIZE cfg"

text \<open>
  The number of segments the ring holds: the slots from the tail (inclusive) to the
  head (exclusive), going round the ring.
\<close>

definition ring_count :: "config \<Rightarrow> machine \<Rightarrow> nat" where
  "ring_count cfg m =
     (unat (segment_buffer_head m) + SEGMENT_BUFFER_SIZE cfg - unat (segment_buffer_tail m))
       mod SEGMENT_BUFFER_SIZE cfg"

text \<open>Slot \<open>j\<close> is in the occupied region, from the tail (inclusive) to the head (exclusive).\<close>

definition occupied :: "config \<Rightarrow> machine \<Rightarrow> nat \<Rightarrow> bool" where
  "occupied cfg m j \<longleftrightarrow>
     j < SEGMENT_BUFFER_SIZE cfg \<and>
     (j + SEGMENT_BUFFER_SIZE cfg - unat (segment_buffer_tail m)) mod SEGMENT_BUFFER_SIZE cfg
       < ring_count cfg m"

section \<open>A concrete configuration and machine\<close>

text \<open>
  The configuration of the scenarios of section 8 of the specification (a 24 MHz step
  timer, 100 acceleration ticks per second, a ring of 10 segments) with Grbl's bit
  assignments; the planner reports a stop at the end of every block and the programmed
  rate as the nominal speed.
\<close>

definition example_config :: config where
  "example_config =
     \<lparr>F_TIMER_STEPPER = 24000000, MAX_STEP_RATE_HZ = None, SEGMENT_BUFFER_SIZE = 10,
      ACCELERATION_TICKS_PER_SECOND = 100, TICKS_PER_MICROSECOND = 24,
      PARKING_ENABLE = False,
      STEP_BIT = (\<lambda>a. case a of X_AXIS \<Rightarrow> 0 | Y_AXIS \<Rightarrow> 1 | Z_AXIS \<Rightarrow> 2),
      DIRECTION_BIT = (\<lambda>a. case a of X_AXIS \<Rightarrow> 0 | Y_AXIS \<Rightarrow> 1 | Z_AXIS \<Rightarrow> 2),
      STATE_HOMING = 4, STATE_SLEEP = 128,
      STEP_CONTROL_END_MOTION = 1, STEP_CONTROL_EXECUTE_HOLD = 2,
      STEP_CONTROL_EXECUTE_SYS_MOTION = 4, STEP_CONTROL_UPDATE_SPINDLE_PWM = 8,
      BITFLAG_INVERT_ST_ENABLE = 4, BITFLAG_LASER_MODE = 2,
      PL_COND_FLAG_SPINDLE_CW = 16, PL_COND_FLAG_SPINDLE_CCW = 32,
      SPINDLE_PWM_OFF_VALUE = 0, PROBE_ACTIVE = 1, PROBE_OFF = 0,
      EXEC_CYCLE_STOP = 4, EXEC_MOTION_CANCEL = 64,
      Settings_GetStepPinMask = (\<lambda>idx. push_bit idx 1),
      Settings_GetDirectionPinMask = (\<lambda>idx. push_bit idx 1),
      Planner_GetExecBlockExitSpeedSqr = (\<lambda>m. Finite 0),
      Planner_ComputeProfileNominalSpeed = programmed_rate,
      Spindle_ComputePwmValue = (\<lambda>rpm. 0)\<rparr>"

text \<open>The machine with every variable zero, as C leaves static storage at start-up.\<close>

definition zero_block :: Stepper_Block_t where
  "zero_block = \<lparr>steps = (\<lambda>a. 0), step_event_count = 0, direction_bits = 0,
                 is_pwm_rate_adjusted = 0\<rparr>"

definition zero_segment :: Stepper_Segment_t where
  "zero_segment = \<lparr>n_step = 0, cycles_per_tick = 0, st_block_index = 0, amass_level = 0,
                   spindle_pwm = 0, backlash_motion = 0\<rparr>"

definition zero_planner_block :: Planner_Block_t where
  "zero_planner_block =
     \<lparr>pl_steps = (\<lambda>a. 0), pl_step_event_count = 0, pl_direction_bits = 0, pl_condition = 0,
      pl_backlash_motion = 0, entry_speed_sqr = Finite 0, acceleration = Finite 0,
      millimeters = Finite 0, programmed_rate = Finite 0, spindle_speed = Finite 0\<rparr>"

definition power_on :: machine where
  "power_on =
     \<lparr>st_block_buffer = (\<lambda>i. zero_block), segment_buffer = (\<lambda>i. zero_segment),
      st = zero_Stepper_t, segment_buffer_tail = 0, segment_buffer_head = 0,
      segment_next_head = 0, step_port_invert_mask = 0, dir_port_invert_mask = 0,
      pl_block = None, st_prep_block = None, prep = zero_Stepper_PrepData_t,
      sys_state = 0, sys_step_control = 0, sys_homing_axis_lock = 0,
      sys_spindle_speed = Finite 0,
      sys_rt_exec_alarm = 0, sys_rt_exec_state = 0, sys_probe_state = 0,
      sys_position = (\<lambda>a. 0), sys_probe_position = (\<lambda>a. 0), probe_triggered = False,
      settings_flags = 0, settings_step_invert_mask = 0, settings_dir_invert_mask = 0,
      settings_stepper_idle_lock_time = 0, block_buffer = (\<lambda>i. zero_planner_block),
      planner_queue = [], planner_sys_motion_block = None, hw_trace = []\<rparr>"

text \<open>
  The level of the driver enable pin: \<open>Stepper_WakeUp\<close> enables the drivers by setting
  the pin when \<open>BITFLAG_INVERT_ST_ENABLE\<close> is set and by resetting it otherwise; the
  disabled level is the opposite one.
\<close>

definition driver_enable_event :: "config \<Rightarrow> machine \<Rightarrow> hw_event" where
  "driver_enable_event cfg m =
     (if BIT_IS_TRUE (settings_flags m) (BITFLAG_INVERT_ST_ENABLE cfg)
      then GPIO_SetBits GPIO_ENABLE else GPIO_ResetBits GPIO_ENABLE)"

definition driver_disable_event :: "config \<Rightarrow> machine \<Rightarrow> hw_event" where
  "driver_disable_event cfg m =
     (if BIT_IS_TRUE (settings_flags m) (BITFLAG_INVERT_ST_ENABLE cfg)
      then GPIO_ResetBits GPIO_ENABLE else GPIO_SetBits GPIO_ENABLE)"

text \<open>A machine with the idle lock time at 255 ("keep enabled") and an alarm pending.\<close>

definition alarm_machine :: machine where
  "alarm_machine = power_on\<lparr>settings_stepper_idle_lock_time := 0xFF, sys_rt_exec_alarm := 1\<rparr>"

text \<open>
  A machine that holds planner block 0 at a current speed of \<open>0.1f\<close> mm/min, the
  \<open>float\<close> nearest to one tenth.
\<close>

definition holding_machine :: machine where
  "holding_machine =
     power_on\<lparr>pl_block := Some 0,
              prep := zero_Stepper_PrepData_t\<lparr>current_speed := Finite (13421773 / 134217728)\<rparr>\<rparr>"


text \<open>
  The machine after \<open>Stepper_Reset\<close> at power-on: the ring is empty,
  \<open>segment_next_head\<close> is 1 and the planner holds no block.
\<close>

definition reset_machine :: machine where
  "reset_machine = Stepper_Reset example_config power_on"

text \<open>
  A fast move after a reset: the planner holds one block of 750 steps on X over 3 mm
  (250 steps per mm), entered, cruised and left at 18000 mm/min (75000 steps per
  second), with an acceleration of 36000 mm per minute squared.
\<close>

definition fast_config :: config where
  "fast_config = example_config\<lparr>Planner_GetExecBlockExitSpeedSqr := (\<lambda>m. Finite 324000000)\<rparr>"

definition fast_block :: Planner_Block_t where
  "fast_block =
     zero_planner_block\<lparr>pl_steps := (\<lambda>a. case a of X_AXIS \<Rightarrow> 750 | _ \<Rightarrow> 0),
       pl_step_event_count := 750, entry_speed_sqr := Finite 324000000,
       acceleration := Finite 36000, millimeters := Finite 3,
       programmed_rate := Finite 18000\<rparr>"

definition fast_machine :: machine where
  "fast_machine = reset_machine\<lparr>planner_queue := [0], block_buffer := (\<lambda>i. fast_block)\<rparr>"

text \<open>
  A slow move after a reset: one block of 250 steps on X over 1 mm, entered, cruised
  and left at 60 mm/min (250 steps per second).
\<close>

definition slow_config :: config where
  "slow_config = example_config\<lparr>Planner_GetExecBlockExitSpeedSqr := (\<lambda>m. Finite 3600)\<rparr>"

definition slow_block :: Planner_Block_t where
  "slow_block =
     zero_planner_block\<lparr>pl_steps := (\<lambda>a. case a of X_AXIS \<Rightarrow> 250 | _ \<Rightarrow> 0),
       pl_step_event_count := 250, entry_speed_sqr := Finite 3600,
       acceleration := Finite 36000, millimeters := Finite 1,
       programmed_rate := Finite 60\<rparr>"

definition slow_machine :: machine where
  "slow_machine = reset_machine\<lparr>planner_queue := [0], block_buffer := (\<lambda>i. slow_block)\<rparr>"

text \<open>The fast move is queued and \<open>STEP_CONTROL_END_MOTION\<close> is set.\<close>

definition end_motion_machine :: machine where
  "end_motion_machine = fast_machine\<lparr>sys_step_control := 1\<rparr>"

section \<open>Floating-point arithmetic\<close>

text \<open>Evaluation of the bit length of a numeral, and the rules that evaluate the arithmetic.\<close>

lemma bitlen_numeral:
  "bitlen (numeral n) = bitlen (numeral n div 2) + 1"
  by (subst compute_bitlen) simp

lemma bitlen_one: "bitlen 1 = 1"
  by (subst compute_bitlen) simp

lemmas fp_eval = f32_def f64_def fp_round_def ilog2_def round_even_def Let_def
  bitlen_numeral bitlen_one fp_is_zero_def fp_is_inf_def fp_sign_def fp_val_def fp_zero_def
  fp_inf_def fp_neg_def fp_add_def fp_sub_def fp_mul_def fp_div_def fp_sqrt_def fp_ceil_def
  fp_lt_def fp_le_def fp_eq_def to_f32_def

text \<open>\<open>ilog2\<close> is the binary exponent.\<close>

lemma ilog2_bounds:
  assumes "0 < x"
  shows "2 powi (ilog2 x) \<le> x \<and> x < 2 powi (ilog2 x + 1)"
proof (cases "1 \<le> x")
  case True
  define n where "n = \<lfloor>x\<rfloor>"
  have n: "0 < n" using True by (simp add: n_def)
  have b: "2 ^ nat (bitlen n - 1) \<le> n" "n < 2 ^ nat (bitlen n)"
    using bitlen_bounds [OF n] by simp_all
  have k: "1 \<le> bitlen n" using n by (simp add: bitlen_alt_def)
  have e: "ilog2 x = bitlen n - 1" using True by (simp add: ilog2_def n_def)
  have "2 powi (bitlen n - 1) = (2::real) ^ nat (bitlen n - 1)"
    using k by (simp add: power_int_def)
  also have "\<dots> = real_of_int (2 ^ nat (bitlen n - 1))" by simp
  also have "\<dots> \<le> real_of_int n" using b(1) by (simp only: of_int_le_iff)
  also have "\<dots> \<le> x" by (simp add: n_def)
  finally have l: "2 powi (bitlen n - 1) \<le> x" .
  have "n + 1 \<le> 2 ^ nat (bitlen n)" using b(2) by simp
  then have "real_of_int (n + 1) \<le> real_of_int (2 ^ nat (bitlen n))"
    by (simp only: of_int_le_iff)
  moreover have "x < real_of_int (n + 1)" by (simp add: n_def)
  ultimately have "x < real_of_int (2 ^ nat (bitlen n))" by linarith
  also have "\<dots> = 2 powi (bitlen n)" using k by (simp add: power_int_def)
  finally have u: "x < 2 powi (bitlen n - 1 + 1)" by simp
  show ?thesis using l u e by simp
next
  case False
  define y where "y = 1 / x"
  define n where "n = \<lceil>y\<rceil> - 1"
  have y: "1 < y" using False assms by (simp add: y_def)
  have n: "0 < n" using y by (simp add: n_def)
  have ny: "real_of_int n < y" "y \<le> real_of_int (n + 1)"
    unfolding n_def by linarith+
  have b: "2 ^ nat (bitlen n - 1) \<le> n" "n < 2 ^ nat (bitlen n)"
    using bitlen_bounds [OF n] by simp_all
  have k: "1 \<le> bitlen n" using n by (simp add: bitlen_alt_def)
  have e: "ilog2 x = - bitlen n" using False by (simp add: ilog2_def n_def y_def)
  have "n + 1 \<le> 2 ^ nat (bitlen n)" using b(2) by simp
  then have "real_of_int (n + 1) \<le> real_of_int (2 ^ nat (bitlen n))"
    by (simp only: of_int_le_iff)
  then have "real_of_int (n + 1) \<le> (2::real) ^ nat (bitlen n)"
    by (simp only: of_int_power of_int_numeral)
  then have "y \<le> 2 ^ nat (bitlen n)" using ny(2) by linarith
  then have "1 / x \<le> 2 ^ nat (bitlen n)" by (simp add: y_def)
  then have "1 / 2 ^ nat (bitlen n) \<le> x"
    using assms by (simp add: field_simps)
  moreover have "2 powi (- bitlen n) = 1 / (2::real) ^ nat (bitlen n)"
    using k by (simp add: power_int_def field_simps)
  ultimately have l: "2 powi (- bitlen n) \<le> x" by simp
  have "real_of_int (2 ^ nat (bitlen n - 1)) \<le> real_of_int n"
    using b(1) by (simp only: of_int_le_iff)
  then have "(2::real) ^ nat (bitlen n - 1) \<le> real_of_int n"
    by (simp only: of_int_power of_int_numeral)
  then have "2 ^ nat (bitlen n - 1) < y" using ny(1) by linarith
  then have "2 ^ nat (bitlen n - 1) < 1 / x" by (simp add: y_def)
  then have "x < 1 / 2 ^ nat (bitlen n - 1)"
    using assms by (simp add: field_simps)
  moreover have "2 powi (- bitlen n + 1) = 1 / (2::real) ^ nat (bitlen n - 1)"
  proof -
    have "- bitlen n + 1 = - (bitlen n - 1)" by simp
    then have "2 powi (- bitlen n + 1) = inverse ((2::real) powi (bitlen n - 1))"
      by (simp only: power_int_minus)
    also have "\<dots> = 1 / (2::real) ^ nat (bitlen n - 1)"
      using k by (simp add: power_int_def field_simps)
    finally show ?thesis .
  qed
  ultimately have u: "x < 2 powi (- bitlen n + 1)" by simp
  show ?thesis using l u e by simp
qed

text \<open>
  Rounding in the range of the normal numbers of a format: the result is finite and
  its relative error is at most \<open>2 powi (- p)\<close>.
\<close>

lemma round_even_error: "\<bar>real_of_int (round_even y) - y\<bar> \<le> 1 / 2"
  by (simp add: round_even_def)

lemma round_even_le: "y \<le> real_of_int N \<Longrightarrow> round_even y \<le> N"
  unfolding round_even_def by (simp add: floor_le_iff)

lemma powi2_split: "(2::real) ^ p * 2 powi (e - int p + 1) = 2 powi (e + 1)"
proof -
  have "(2::real) powi (e + 1) = 2 powi (int p + (e - int p + 1))" by simp
  also have "\<dots> = 2 powi (int p) * 2 powi (e - int p + 1)"
    by (rule power_int_add) simp
  finally show ?thesis by simp
qed

lemma powi2_less_cancel:
  assumes "(2::real) powi a < 2 powi b"
  shows "a < b"
proof (rule ccontr)
  assume "\<not> a < b"
  then have "b \<le> a" by simp
  then have "(2::real) powi b \<le> 2 powi a" by (intro power_int_increasing) simp_all
  then show False using assms by simp
qed

lemma round_even_ge: "real_of_int N \<le> y \<Longrightarrow> N \<le> round_even y"
  unfolding round_even_def by (simp add: le_floor_iff) linarith

lemma round_even_abs_le:
  assumes "\<bar>y\<bar> \<le> real_of_int N"
  shows "\<bar>real_of_int (round_even y)\<bar> \<le> real_of_int N"
proof -
  have "round_even y \<le> N" using assms by (intro round_even_le) linarith
  moreover have "- N \<le> round_even y" using assms by (intro round_even_ge) simp
  ultimately show ?thesis by linarith
qed

lemma fp_round_normal:
  assumes p: "0 < p"
    and lo: "2 powi (1 - emax) \<le> \<bar>x\<bar>"
    and hi: "\<bar>x\<bar> \<le> (2 ^ p - 1) * 2 powi (emax - int p + 1)"
  shows "\<exists>r. fp_round p emax x = Finite r \<and> \<bar>r - x\<bar> \<le> \<bar>x\<bar> / 2 ^ p"
proof -
  have pos: "0 < \<bar>x\<bar>"
    using lo by (smt (verit) zero_less_power_int)
  then have x0: "x \<noteq> 0" by simp
  define e where "e = ilog2 \<bar>x\<bar>"
  have eb: "2 powi e \<le> \<bar>x\<bar>" "\<bar>x\<bar> < 2 powi (e + 1)"
    using ilog2_bounds [OF pos] by (simp_all add: e_def)
  have "(2::real) powi (1 - emax) < 2 powi (e + 1)" using lo eb(2) by linarith
  then have "1 - emax < e + 1" by (rule powi2_less_cancel)
  then have e_lo: "1 - emax \<le> e" by simp
  have "(2::real) powi e \<le> (2 ^ p - 1) * 2 powi (emax - int p + 1)" using eb(1) hi by linarith
  also have "\<dots> < 2 ^ p * 2 powi (emax - int p + 1)"
    by (simp add: mult_strict_right_mono)
  also have "\<dots> = 2 powi (emax + 1)" by (rule powi2_split)
  finally have "e < emax + 1" by (rule powi2_less_cancel)
  then have e_hi: "e \<le> emax" by simp
  define ulp :: real where "ulp = 2 powi (e - int p + 1)"
  have ulp: "0 < ulp" by (simp add: ulp_def)
  define k where "k = round_even (x / ulp)"
  define r where "r = real_of_int k * ulp"
  have mx: "max (1 - emax) (ilog2 \<bar>x\<bar>) = e" using e_lo by (simp add: e_def)
  have up: "ulp * 2 ^ p = 2 powi (e + 1)"
    using powi2_split [of p e] by (simp add: ulp_def mult.commute)
  have "\<bar>real_of_int k - x / ulp\<bar> \<le> 1 / 2" unfolding k_def by (rule round_even_error)
  then have "\<bar>real_of_int k - x / ulp\<bar> * ulp \<le> 1 / 2 * ulp"
    using ulp by (intro mult_right_mono) simp_all
  moreover have "\<bar>real_of_int k - x / ulp\<bar> * ulp = \<bar>r - x\<bar>"
  proof -
    have "\<bar>real_of_int k - x / ulp\<bar> * ulp = \<bar>(real_of_int k - x / ulp) * ulp\<bar>"
      using ulp by (simp add: abs_mult)
    also have "(real_of_int k - x / ulp) * ulp = r - x"
      using ulp by (simp add: r_def field_simps)
    finally show ?thesis .
  qed
  ultimately have err: "\<bar>r - x\<bar> \<le> ulp / 2" by simp
  have "ulp / 2 * 2 ^ p = 2 powi (e + 1) / 2" using up by simp
  also have "\<dots> = 2 powi e" by (simp add: power_int_add)
  finally have "ulp / 2 = 2 powi e / 2 ^ p" by (simp add: field_simps)
  also have "\<dots> \<le> \<bar>x\<bar> / 2 ^ p" using eb(1) by (simp add: divide_right_mono)
  finally have ulp2: "ulp / 2 \<le> \<bar>x\<bar> / 2 ^ p" .
  have bound: "\<bar>r - x\<bar> \<le> \<bar>x\<bar> / 2 ^ p" using err ulp2 by linarith
  have "(2::real) ^ p \<ge> 2" using p
    by (metis One_nat_def Suc_leI one_le_numeral power_increasing power_one_right)
  then have "\<bar>x\<bar> / 2 ^ p \<le> \<bar>x\<bar> / 2"
    using pos by (intro divide_left_mono) simp_all
  then have "\<bar>r - x\<bar> < \<bar>x\<bar>" using bound pos by linarith
  then have r0: "r \<noteq> 0" by auto
  have nov: "\<bar>r\<bar> < 2 powi (emax + 1)"
  proof (cases "e = emax")
    case True
    have "\<bar>x / ulp\<bar> \<le> 2 ^ p - 1"
    proof -
      have "\<bar>x\<bar> \<le> (2 ^ p - 1) * ulp" using hi True by (simp add: ulp_def)
      then have "\<bar>x\<bar> / ulp \<le> 2 ^ p - 1" using ulp by (simp add: field_simps)
      then show ?thesis using ulp by simp
    qed
    then have "\<bar>x / ulp\<bar> \<le> real_of_int (2 ^ p - 1)" by simp
    then have "\<bar>real_of_int k\<bar> \<le> real_of_int (2 ^ p - 1)"
      unfolding k_def by (rule round_even_abs_le)
    then have "\<bar>real_of_int k\<bar> \<le> 2 ^ p - 1" by simp
    then have "\<bar>real_of_int k\<bar> * ulp \<le> (2 ^ p - 1) * ulp"
      using ulp by (intro mult_right_mono) simp_all
    also have "\<dots> < 2 ^ p * ulp" using ulp by (simp add: mult_strict_right_mono)
    also have "\<dots> = 2 powi (emax + 1)" using up True by (simp add: mult.commute)
    finally show ?thesis using ulp by (simp add: r_def abs_mult)
  next
    case False
    then have lt: "e + 1 \<le> emax" using e_hi by simp
    have "\<bar>x / ulp\<bar> \<le> 2 ^ p"
    proof -
      have "\<bar>x\<bar> \<le> 2 ^ p * ulp" using eb(2) up by (simp add: mult.commute)
      then have "\<bar>x\<bar> / ulp \<le> 2 ^ p" using ulp by (simp add: field_simps)
      then show ?thesis using ulp by simp
    qed
    then have "\<bar>x / ulp\<bar> \<le> real_of_int (2 ^ p)" by simp
    then have "\<bar>real_of_int k\<bar> \<le> real_of_int (2 ^ p)"
      unfolding k_def by (rule round_even_abs_le)
    then have "\<bar>real_of_int k\<bar> \<le> 2 ^ p" by simp
    then have "\<bar>real_of_int k\<bar> * ulp \<le> 2 ^ p * ulp"
      using ulp by (intro mult_right_mono) simp_all
    also have "\<dots> = 2 powi (e + 1)" using up by (simp add: mult.commute)
    also have "\<dots> \<le> 2 powi emax" using lt by (simp add: power_int_increasing)
    also have "\<dots> < 2 powi (emax + 1)" by (simp add: power_int_strict_increasing)
    finally show ?thesis using ulp by (simp add: r_def abs_mult)
  qed
  have "fp_round p emax x = Finite r"
    using x0 r0 nov
    by (simp add: fp_round_def Let_def mx r_def k_def ulp_def)
  then show ?thesis using bound by blast
qed

section \<open>The control facade\<close>

lemma recalculate_bit_set: "BIT_IS_TRUE (x OR PREP_FLAG_RECALCULATE) PREP_FLAG_RECALCULATE"
  by (simp add: BIT_IS_TRUE_def PREP_FLAG_RECALCULATE_def)

text \<open>
  Claim C7. \<open>Stepper_UpdatePlannerBlockParams\<close>: when no planner block is in flight
  (\<open>pl_block\<close> is null) the call changes nothing. When block \<open>b\<close> is in flight, the call
  sets the \<open>PREP_FLAG_RECALCULATE\<close> bit of \<open>prep.recalculate_flag\<close> (the other bits
  keep their values), writes the square of \<open>prep.current_speed\<close> to the block's
  \<open>entry_speed_sqr\<close> and sets \<open>pl_block\<close> to null; every other planner block, every
  other field of block \<open>b\<close>, every other field of \<open>prep\<close> and every other variable
  keeps its value. The square is the \<open>float\<close> product of line 714: the exact square
  rounded to \<open>float\<close>, which, when the speed is finite and its square is in the range of
  the normal \<open>float\<close> numbers, is a finite number within a relative error of
  \<open>2 powi (- 24)\<close> of the square.
\<close>

theorem UpdatePlannerBlockParams_effect:
  "(pl_block m = None \<longrightarrow> Stepper_UpdatePlannerBlockParams m = m) \<and>
   (\<forall>b. pl_block m = Some b \<longrightarrow>
      BIT_IS_TRUE (recalculate_flag (prep (Stepper_UpdatePlannerBlockParams m)))
        PREP_FLAG_RECALCULATE \<and>
      recalculate_flag (prep (Stepper_UpdatePlannerBlockParams m))
        = recalculate_flag (prep m) OR PREP_FLAG_RECALCULATE \<and>
      entry_speed_sqr (block_buffer (Stepper_UpdatePlannerBlockParams m) b)
        = fp_mul f32 (current_speed (prep m)) (current_speed (prep m)) \<and>
      (\<forall>x. current_speed (prep m) = Finite x \<and> 2 powi (- 126) \<le> x\<^sup>2
             \<and> x\<^sup>2 \<le> (2 ^ 24 - 1) * 2 powi 104 \<longrightarrow>
         (\<exists>r. entry_speed_sqr (block_buffer (Stepper_UpdatePlannerBlockParams m) b) = Finite r
              \<and> \<bar>r - x\<^sup>2\<bar> \<le> x\<^sup>2 / 2 ^ 24)) \<and>
      pl_block (Stepper_UpdatePlannerBlockParams m) = None \<and>
      (\<forall>b'. b' \<noteq> b \<longrightarrow>
          block_buffer (Stepper_UpdatePlannerBlockParams m) b' = block_buffer m b') \<and>
      (block_buffer (Stepper_UpdatePlannerBlockParams m) b)
         \<lparr>entry_speed_sqr := entry_speed_sqr (block_buffer m b)\<rparr> = block_buffer m b \<and>
      (prep (Stepper_UpdatePlannerBlockParams m))\<lparr>recalculate_flag := recalculate_flag (prep m)\<rparr>
         = prep m \<and>
      (Stepper_UpdatePlannerBlockParams m)
         \<lparr>prep := prep m, block_buffer := block_buffer m, pl_block := pl_block m\<rparr> = m)"
proof -
  have sq: "\<exists>r. fp_mul f32 (Finite x) (Finite x) = Finite r \<and> \<bar>r - x\<^sup>2\<bar> \<le> x\<^sup>2 / 2 ^ 24"
    if lo: "2 powi (- 126) \<le> x\<^sup>2" and hi: "x\<^sup>2 \<le> (2 ^ 24 - 1) * 2 powi 104" for x :: real
  proof -
    have "(0::real) < 2 powi (- 126)" by simp
    then have pos: "0 < x\<^sup>2" using lo by linarith
    then have nz: "x * x \<noteq> 0" unfolding power2_eq_square by linarith
    have "\<exists>r. fp_round 24 127 (x\<^sup>2) = Finite r \<and> \<bar>r - x\<^sup>2\<bar> \<le> \<bar>x\<^sup>2\<bar> / 2 ^ 24"
      using lo hi by (intro fp_round_normal) simp_all
    moreover have "fp_mul f32 (Finite x) (Finite x) = fp_round 24 127 (x\<^sup>2)"
      using nz by (simp add: fp_mul_def fp_is_inf_def fp_val_def f32_def power2_eq_square)
    ultimately show ?thesis by simp
  qed
  show ?thesis
    using sq
    by (simp add: Stepper_UpdatePlannerBlockParams_def recalculate_bit_set)
qed

theorem UpdatePlannerBlockParams_witness:
  "pl_block holding_machine = Some 0
   \<and> current_speed (prep holding_machine) = Finite (13421773 / 134217728)
   \<and> entry_speed_sqr (block_buffer (Stepper_UpdatePlannerBlockParams holding_machine) 0)
       = Finite (10737419 / 1073741824)
   \<and> recalculate_flag (prep (Stepper_UpdatePlannerBlockParams holding_machine)) = 1
   \<and> pl_block (Stepper_UpdatePlannerBlockParams holding_machine) = None
   \<and> pl_block power_on = None
   \<and> Stepper_UpdatePlannerBlockParams power_on = power_on"
proof -
  have e: "fp_mul f32 (Finite (13421773 / 134217728)) (Finite (13421773 / 134217728))
             = Finite (10737419 / 1073741824)"
    by (simp add: fp_eval)
  show ?thesis
    using UpdatePlannerBlockParams_effect [of holding_machine]
          UpdatePlannerBlockParams_effect [of power_on]
    by (simp add: holding_machine_def power_on_def zero_Stepper_PrepData_t_def
          PREP_FLAG_RECALCULATE_def e)
qed

lemma Stepper_Disable_trace:
  "hw_trace (Stepper_Disable cfg ovr m) =
     hw_trace m @
     [TIM_Cmd False, Delay_us 1,
      if bit (step_port_invert_mask m) (STEP_BIT cfg X_AXIS)
        then GPIO_SetBits (GPIO_STEP X_AXIS) else GPIO_ResetBits (GPIO_STEP X_AXIS),
      if bit (step_port_invert_mask m) (STEP_BIT cfg Y_AXIS)
        then GPIO_SetBits (GPIO_STEP Y_AXIS) else GPIO_ResetBits (GPIO_STEP Y_AXIS),
      if bit (step_port_invert_mask m) (STEP_BIT cfg Z_AXIS)
        then GPIO_SetBits (GPIO_STEP Z_AXIS) else GPIO_ResetBits (GPIO_STEP Z_AXIS)] @
     (if idle_lock cfg m then [Delay_ms (unat (settings_stepper_idle_lock_time m))] else []) @
     [if ovr \<noteq> 0 \<or> idle_lock cfg m
      then driver_disable_event cfg m else driver_enable_event cfg m]"
  by (simp add: Stepper_Disable_def Let_def Stepper_PortResetISR_def GPIO_write_def emit_def
        idle_lock_def driver_disable_event_def driver_enable_event_def)

lemma Stepper_Disable_frame: "(Stepper_Disable cfg ovr m)\<lparr>hw_trace := hw_trace m\<rparr> = m"
  by (simp add: Stepper_Disable_def Let_def Stepper_PortResetISR_def GPIO_write_def emit_def)

text \<open>
  Claim C6, as amended. \<open>Stepper_Disable(0)\<close> stops the timer, waits a microsecond and
  puts the three step pins at their idle level. Then, if the idle lock time is not 0xFF
  or an alarm is pending (\<open>sys_rt_exec_alarm\<close> is not zero) or the state is
  \<open>STATE_SLEEP\<close>, and the state is not \<open>STATE_HOMING\<close>, it dwells
  \<open>stepper_idle_lock_time\<close> milliseconds and drives the enable pin to the disabled
  level; otherwise it drives the enable pin to the enabled level without a dwell.
  Nothing but the hardware is touched.
\<close>

theorem Stepper_Disable_0_effect:
  "hw_trace (Stepper_Disable cfg 0 m) =
     hw_trace m @
     [TIM_Cmd False, Delay_us 1,
      if bit (step_port_invert_mask m) (STEP_BIT cfg X_AXIS)
        then GPIO_SetBits (GPIO_STEP X_AXIS) else GPIO_ResetBits (GPIO_STEP X_AXIS),
      if bit (step_port_invert_mask m) (STEP_BIT cfg Y_AXIS)
        then GPIO_SetBits (GPIO_STEP Y_AXIS) else GPIO_ResetBits (GPIO_STEP Y_AXIS),
      if bit (step_port_invert_mask m) (STEP_BIT cfg Z_AXIS)
        then GPIO_SetBits (GPIO_STEP Z_AXIS) else GPIO_ResetBits (GPIO_STEP Z_AXIS)] @
     (if (settings_stepper_idle_lock_time m \<noteq> 0xFF \<or> sys_rt_exec_alarm m \<noteq> 0
            \<or> sys_state m = STATE_SLEEP cfg) \<and> sys_state m \<noteq> STATE_HOMING cfg
      then [Delay_ms (unat (settings_stepper_idle_lock_time m)), driver_disable_event cfg m]
      else [driver_enable_event cfg m])
   \<and> (Stepper_Disable cfg 0 m)\<lparr>hw_trace := hw_trace m\<rparr> = m"
  by (simp add: Stepper_Disable_trace Stepper_Disable_frame idle_lock_def)

theorem Stepper_Disable_0_witness:
  "hw_trace (Stepper_Disable example_config 0 alarm_machine) =
     [TIM_Cmd False, Delay_us 1, GPIO_ResetBits (GPIO_STEP X_AXIS),
      GPIO_ResetBits (GPIO_STEP Y_AXIS), GPIO_ResetBits (GPIO_STEP Z_AXIS),
      Delay_ms 255, GPIO_SetBits GPIO_ENABLE]"
  using Stepper_Disable_0_effect [of example_config alarm_machine]
  by (simp add: alarm_machine_def power_on_def example_config_def driver_disable_event_def
        driver_enable_event_def BIT_IS_TRUE_def)

text \<open>
  Claim C6 as stated fails: with the idle lock time at 0xFF and an alarm pending, the
  state not being the homing state, \<open>Stepper_Disable(0)\<close> leaves the enable pin at the
  disabled level, although the idle lock time is 0xFF.
\<close>

theorem Stepper_Disable_0_counterexample:
  "\<not> (last (hw_trace (Stepper_Disable example_config 0 alarm_machine))
          = driver_disable_event example_config alarm_machine
       \<longleftrightarrow> settings_stepper_idle_lock_time alarm_machine \<noteq> 0xFF
            \<and> sys_state alarm_machine \<noteq> STATE_HOMING example_config)"
  by (simp add: Stepper_Disable_trace idle_lock_def alarm_machine_def power_on_def
        example_config_def driver_disable_event_def driver_enable_event_def BIT_IS_TRUE_def)

section \<open>The step interrupt\<close>

lemma invert_masks_loop_frame:
  "\<exists>x y. invert_masks_loop cfg idxs m = m\<lparr>step_port_invert_mask := x, dir_port_invert_mask := y\<rparr>"
proof (induction idxs arbitrary: m)
  case Nil
  have "m = m\<lparr>step_port_invert_mask := step_port_invert_mask m,
               dir_port_invert_mask := dir_port_invert_mask m\<rparr>" by simp
  then show ?case by (metis invert_masks_loop.simps(1))
next
  case (Cons idx rest)
  define m2 where "m2 = (let m1 = (if BIT_IS_TRUE (settings_step_invert_mask m) (push_bit idx 1)
                then m\<lparr>step_port_invert_mask :=
                         step_port_invert_mask m OR Settings_GetStepPinMask cfg idx\<rparr>
                else m) in (if BIT_IS_TRUE (settings_dir_invert_mask m1) (push_bit idx 1)
                then m1\<lparr>dir_port_invert_mask :=
                         dir_port_invert_mask m1 OR Settings_GetDirectionPinMask cfg idx\<rparr>
                else m1))"
  have step: "invert_masks_loop cfg (idx # rest) m = invert_masks_loop cfg rest m2"
    by (simp add: m2_def Let_def)
  have m2: "\<exists>x y. m2 = m\<lparr>step_port_invert_mask := x, dir_port_invert_mask := y\<rparr>"
  proof -
    have "m2 = m\<lparr>step_port_invert_mask := step_port_invert_mask m2,
                  dir_port_invert_mask := dir_port_invert_mask m2\<rparr>"
      by (simp add: m2_def Let_def)
    then show ?thesis by blast
  qed
  then obtain x y where "m2 = m\<lparr>step_port_invert_mask := x, dir_port_invert_mask := y\<rparr>" by blast
  moreover obtain x' y' where "invert_masks_loop cfg rest m2
      = m2\<lparr>step_port_invert_mask := x', dir_port_invert_mask := y'\<rparr>"
    using Cons.IH by blast
  ultimately have "invert_masks_loop cfg rest m2
      = m\<lparr>step_port_invert_mask := x', dir_port_invert_mask := y'\<rparr>" by simp
  then show ?case using step by auto
qed

lemma GenerateMasks_frame:
  "\<exists>x y. Stepper_GenerateStepDirInvertMasks cfg m
          = m\<lparr>step_port_invert_mask := x, dir_port_invert_mask := y\<rparr>"
proof -
  obtain x y where "invert_masks_loop cfg [0, 1, 2]
        (m\<lparr>step_port_invert_mask := 0, dir_port_invert_mask := 0\<rparr>)
      = (m\<lparr>step_port_invert_mask := 0, dir_port_invert_mask := 0\<rparr>)
          \<lparr>step_port_invert_mask := x, dir_port_invert_mask := y\<rparr>"
    using invert_masks_loop_frame by blast
  then show ?thesis by (auto simp: Stepper_GenerateStepDirInvertMasks_def)
qed

lemma Stepper_Disable_eq: "\<exists>t. Stepper_Disable cfg ovr m = m\<lparr>hw_trace := t\<rparr>"
proof -
  have "Stepper_Disable cfg ovr m = (Stepper_Disable cfg ovr m)\<lparr>hw_trace := hw_trace (Stepper_Disable cfg ovr m)\<rparr>"
    by simp
  also have "\<dots> = ((Stepper_Disable cfg ovr m)\<lparr>hw_trace := hw_trace m\<rparr>)\<lparr>hw_trace := hw_trace (Stepper_Disable cfg ovr m)\<rparr>"
    by simp
  also have "\<dots> = m\<lparr>hw_trace := hw_trace (Stepper_Disable cfg ovr m)\<rparr>"
    by (simp only: Stepper_Disable_frame)
  finally show ?thesis by blast
qed

lemma Stepper_Reset_eq:
  "\<exists>x y t. Stepper_Reset cfg m =
      m\<lparr>prep := zero_Stepper_PrepData_t, st := zero_Stepper_t\<lparr>dir_outbits := y\<rparr>,
        pl_block := None, segment_buffer_tail := 0, segment_buffer_head := 0,
        segment_next_head := 1, step_port_invert_mask := x, dir_port_invert_mask := y,
        hw_trace := t\<rparr>"
proof -
  obtain t where d: "Stepper_Disable cfg 0 m = m\<lparr>hw_trace := t\<rparr>"
    using Stepper_Disable_eq by blast
  define m3 where "m3 = m\<lparr>hw_trace := t, prep := zero_Stepper_PrepData_t, st := zero_Stepper_t,
       pl_block := None, segment_buffer_tail := 0, segment_buffer_head := 0, segment_next_head := 1\<rparr>"
  obtain x y where g: "Stepper_GenerateStepDirInvertMasks cfg m3
          = m3\<lparr>step_port_invert_mask := x, dir_port_invert_mask := y\<rparr>"
    using GenerateMasks_frame by blast
  have "Stepper_Reset cfg m =
      m\<lparr>prep := zero_Stepper_PrepData_t, st := zero_Stepper_t\<lparr>dir_outbits := y\<rparr>,
        pl_block := None, segment_buffer_tail := 0, segment_buffer_head := 0,
        segment_next_head := 1, step_port_invert_mask := x, dir_port_invert_mask := y,
        hw_trace := t @ [GPIO_ResetBits (GPIO_STEP X_AXIS), GPIO_ResetBits (GPIO_STEP Y_AXIS),
           GPIO_ResetBits (GPIO_STEP Z_AXIS), GPIO_ResetBits (GPIO_DIR X_AXIS),
           GPIO_ResetBits (GPIO_DIR Y_AXIS), GPIO_ResetBits (GPIO_DIR Z_AXIS)]\<rparr>"
    unfolding Stepper_Reset_def Let_def d
    using g by (simp add: m3_def zero_Stepper_t_def GPIO_write_def emit_def)
  then show ?thesis by blast
qed

lemma MainISR_null:
  assumes "exec_segment (st m) = None" "segment_buffer_head m = segment_buffer_tail m"
    "exec_block (st m) = None"
  shows "Stepper_MainISR cfg m = Inl NullPointer"
proof -
  have p: "\<exists>t. ISR_pulse cfg m = m\<lparr>hw_trace := t\<rparr>"
  proof -
    have "ISR_pulse cfg m = m\<lparr>hw_trace := hw_trace (ISR_pulse cfg m)\<rparr>"
      by (simp add: ISR_pulse_def ISR_pulse_axis_def GPIO_write_def emit_def)
    then show ?thesis by blast
  qed
  then obtain t where t: "ISR_pulse cfg m = m\<lparr>hw_trace := t\<rparr>" by blast
  obtain t' where t': "Stepper_Disable cfg 0 (m\<lparr>hw_trace := t\<rparr>) = m\<lparr>hw_trace := t\<rparr>\<lparr>hw_trace := t'\<rparr>"
    using Stepper_Disable_eq by blast
  show ?thesis
    unfolding Stepper_MainISR_def Let_def t ISR_idle_def t'
    using assms by simp
qed

text \<open>
  Claim C9 fails on the code. \<open>Stepper_Reset\<close> zeroes \<open>st\<close>, so \<open>st.exec_block\<close> is the
  null pointer, and empties the ring. A tick of the interrupt in that state, also after
  \<open>Stepper_WakeUp\<close> has started the timer, takes the empty-ring branch and reads
  \<open>st.exec_block->is_pwm_rate_adjusted\<close> through the null pointer.
\<close>

theorem MainISR_after_Reset_null_pointer:
  "Stepper_MainISR cfg (Stepper_Reset cfg m) = Inl NullPointer
   \<and> Stepper_MainISR cfg (Stepper_WakeUp cfg (Stepper_Reset cfg m)) = Inl NullPointer"
proof -
  obtain x y t where r: "Stepper_Reset cfg m =
      m\<lparr>prep := zero_Stepper_PrepData_t, st := zero_Stepper_t\<lparr>dir_outbits := y\<rparr>,
        pl_block := None, segment_buffer_tail := 0, segment_buffer_head := 0,
        segment_next_head := 1, step_port_invert_mask := x, dir_port_invert_mask := y,
        hw_trace := t\<rparr>"
    using Stepper_Reset_eq by blast
  have 1: "Stepper_MainISR cfg (Stepper_Reset cfg m) = Inl NullPointer"
    by (rule MainISR_null) (simp_all add: r zero_Stepper_t_def)
  have 2: "Stepper_MainISR cfg (Stepper_WakeUp cfg (Stepper_Reset cfg m)) = Inl NullPointer"
    by (rule MainISR_null)
       (simp_all add: r zero_Stepper_t_def Stepper_WakeUp_def Let_def GPIO_write_def emit_def)
  show ?thesis using 1 2 by simp
qed

lemma counter_set_counter [simp]:
  "counter a (set_counter a' v s) = (if a = a' then v else counter a s)"
  by (cases a; cases a'; simp add: counter_def set_counter_def)

lemma set_counter_fields [simp]:
  "step_outbits (set_counter a v s) = step_outbits s"
  "st_steps (set_counter a v s) = st_steps s"
  "step_count (set_counter a v s) = step_count s"
  "exec_block (set_counter a v s) = exec_block s"
  "exec_segment (set_counter a v s) = exec_segment s"
  "exec_block_index (set_counter a v s) = exec_block_index s"
  "dir_outbits (set_counter a v s) = dir_outbits s"
  by (cases a; simp add: set_counter_def)+

lemma counter_fields [simp]:
  "counter a (s\<lparr>step_outbits := x\<rparr>) = counter a s"
  "counter a (s\<lparr>step_count := y\<rparr>) = counter a s"
  "counter a (s\<lparr>exec_segment := z\<rparr>) = counter a s"
  by (cases a; simp add: counter_def)+

lemma bit_step_mask:
  "bit (push_bit n 1 :: 8 word) k \<longleftrightarrow> k = n \<and> n < 8"
  by (auto simp: bit_simps)

text \<open>What the tracer does on one axis, in one equation.\<close>

lemma ISR_bresenham_axis_eq:
  "ISR_bresenham_axis cfg blk seg a m =
     (if counter a (st m) + st_steps (st m) a > step_event_count blk
      then m\<lparr>st := set_counter a (counter a (st m) + st_steps (st m) a - step_event_count blk)
                   ((st m)\<lparr>step_outbits := step_outbits (st m) OR push_bit (STEP_BIT cfg a) 1\<rparr>),
             sys_position :=
               (if backlash_motion seg = 0
                then (sys_position m)(a := (if bit (direction_bits blk) (DIRECTION_BIT cfg a)
                                            then sys_position m a - 1 else sys_position m a + 1))
                else sys_position m)\<rparr>
      else m\<lparr>st := set_counter a (counter a (st m) + st_steps (st m) a) (st m)\<rparr>)"
  by (cases a; simp add: ISR_bresenham_axis_def Let_def counter_def set_counter_def)







lemma ISR_pulse_eq: "\<exists>t. ISR_pulse cfg m = m\<lparr>hw_trace := t\<rparr>"
proof -
  have "ISR_pulse cfg m = m\<lparr>hw_trace := hw_trace (ISR_pulse cfg m)\<rparr>"
    by (simp add: ISR_pulse_def ISR_pulse_axis_def GPIO_write_def emit_def)
  then show ?thesis by blast
qed

lemma ISR_probe_fields [simp]:
  "st (ISR_probe cfg m) = st m"
  "st_block_buffer (ISR_probe cfg m) = st_block_buffer m"
  "segment_buffer (ISR_probe cfg m) = segment_buffer m"
  "sys_position (ISR_probe cfg m) = sys_position m"
  "sys_state (ISR_probe cfg m) = sys_state m"
  "sys_homing_axis_lock (ISR_probe cfg m) = sys_homing_axis_lock m"
  "segment_buffer_tail (ISR_probe cfg m) = segment_buffer_tail m"
  "segment_buffer_head (ISR_probe cfg m) = segment_buffer_head m"
  "segment_next_head (ISR_probe cfg m) = segment_next_head m"
  by (simp_all add: ISR_probe_def Probe_StateMonitor_def)

text \<open>The tracer on the three axes, seen from one axis.\<close>

lemma ISR_bresenham_Inr:
  assumes "ISR_bresenham cfg m = Inr mb"
  shows "\<exists>b i. exec_block (st m) = Some b \<and> exec_segment (st m) = Some i \<and>
           mb = ISR_bresenham_axis cfg (st_block_buffer m b) (segment_buffer m i) Z_AXIS
                  (ISR_bresenham_axis cfg (st_block_buffer m b) (segment_buffer m i) Y_AXIS
                     (ISR_bresenham_axis cfg (st_block_buffer m b) (segment_buffer m i) X_AXIS
                        (m\<lparr>st := (st m)\<lparr>step_outbits := 0\<rparr>\<rparr>)))"
  using assms
  by (auto simp add: ISR_bresenham_def Let_def split: option.splits)




lemma ISR_pulse_fields [simp]:
  "st (ISR_pulse cfg m) = st m"
  "st_block_buffer (ISR_pulse cfg m) = st_block_buffer m"
  "segment_buffer (ISR_pulse cfg m) = segment_buffer m"
  "sys_position (ISR_pulse cfg m) = sys_position m"
  "sys_state (ISR_pulse cfg m) = sys_state m"
  "sys_homing_axis_lock (ISR_pulse cfg m) = sys_homing_axis_lock m"
  "segment_buffer_tail (ISR_pulse cfg m) = segment_buffer_tail m"
  "segment_buffer_head (ISR_pulse cfg m) = segment_buffer_head m"
  "segment_next_head (ISR_pulse cfg m) = segment_next_head m"
  "dir_port_invert_mask (ISR_pulse cfg m) = dir_port_invert_mask m"
  by (simp_all add: ISR_pulse_def ISR_pulse_axis_def GPIO_write_def emit_def)

lemma ISR_complete_fields [simp]:
  "counter a (st (ISR_complete cfg m)) = counter a (st m)"
  "step_outbits (st (ISR_complete cfg m)) = step_outbits (st m)"
  "sys_position (ISR_complete cfg m) = sys_position m"
  by (simp_all add: ISR_complete_def Let_def)

lemma ISR_homing_lock_fields [simp]:
  "counter a (st (ISR_homing_lock cfg m)) = counter a (st m)"
  "sys_position (ISR_homing_lock cfg m) = sys_position m"
  "step_outbits (st (ISR_homing_lock cfg m)) =
     (if sys_state m = STATE_HOMING cfg
      then step_outbits (st m) AND sys_homing_axis_lock m else step_outbits (st m))"
  by (simp_all add: ISR_homing_lock_def)

lemma ISR_bresenham_sys [simp]:
  "ISR_bresenham cfg m = Inr mb \<Longrightarrow> sys_state mb = sys_state m"
  "ISR_bresenham cfg m = Inr mb \<Longrightarrow> sys_homing_axis_lock mb = sys_homing_axis_lock m"
  by (auto dest!: ISR_bresenham_Inr simp: ISR_bresenham_axis_eq)

lemma ISR_bresenham_axis_frame [simp]:
  "exec_block (st (ISR_bresenham_axis cfg blk seg a m)) = exec_block (st m)"
  "exec_segment (st (ISR_bresenham_axis cfg blk seg a m)) = exec_segment (st m)"
  "exec_block_index (st (ISR_bresenham_axis cfg blk seg a m)) = exec_block_index (st m)"
  "step_count (st (ISR_bresenham_axis cfg blk seg a m)) = step_count (st m)"
  "st_block_buffer (ISR_bresenham_axis cfg blk seg a m) = st_block_buffer m"
  "segment_buffer (ISR_bresenham_axis cfg blk seg a m) = segment_buffer m"
  "segment_buffer_tail (ISR_bresenham_axis cfg blk seg a m) = segment_buffer_tail m"
  "segment_buffer_head (ISR_bresenham_axis cfg blk seg a m) = segment_buffer_head m"
  "segment_next_head (ISR_bresenham_axis cfg blk seg a m) = segment_next_head m"
  "sys_state (ISR_bresenham_axis cfg blk seg a m) = sys_state m"
  "sys_homing_axis_lock (ISR_bresenham_axis cfg blk seg a m) = sys_homing_axis_lock m"
  by (simp_all add: ISR_bresenham_axis_eq)







section \<open>The segment preparer\<close>

lemma prep_new_block_ring [simp]:
  "segment_buffer (prep_new_block cfg b m) = segment_buffer m"
  "segment_buffer_head (prep_new_block cfg b m) = segment_buffer_head m"
  "segment_next_head (prep_new_block cfg b m) = segment_next_head m"
  "segment_buffer_tail (prep_new_block cfg b m) = segment_buffer_tail m"
  "pl_block (prep_new_block cfg b m) = pl_block m"
  by (simp_all add: prep_new_block_def Let_def)

lemma prep_profile_ring [simp]:
  "segment_buffer (prep_profile cfg b m) = segment_buffer m"
  "segment_buffer_head (prep_profile cfg b m) = segment_buffer_head m"
  "segment_next_head (prep_profile cfg b m) = segment_next_head m"
  "segment_buffer_tail (prep_profile cfg b m) = segment_buffer_tail m"
  "pl_block (prep_profile cfg b m) = pl_block m"
  by (simp_all add: prep_profile_def Let_def)

lemma prep_acquire_ring [simp]:
  "segment_buffer (flow_machine (prep_acquire cfg m)) = segment_buffer m"
  "segment_buffer_head (flow_machine (prep_acquire cfg m)) = segment_buffer_head m"
  "segment_next_head (flow_machine (prep_acquire cfg m)) = segment_next_head m"
  "segment_buffer_tail (flow_machine (prep_acquire cfg m)) = segment_buffer_tail m"
  by (simp_all add: prep_acquire_def Let_def flow_machine_def split: option.splits)

lemma prep_acquire_None:
  assumes "pl_block m = None"
    and "(if BIT_IS_TRUE (sys_step_control m) (STEP_CONTROL_EXECUTE_SYS_MOTION cfg)
          then Planner_GetSystemMotionBlock m else Planner_GetCurrentBlock m) = None"
  shows "prep_acquire cfg m = Return m"
proof -
  have "m\<lparr>pl_block := None\<rparr> = m" using assms(1) by simp
  then show ?thesis using assms by (simp add: prep_acquire_def Let_def)
qed

text \<open>
  Claim C8. If the \<open>STEP_CONTROL_END_MOTION\<close> bit of \<open>sys.step_control\<close> is set on
  entry, \<open>Stepper_PrepareBuffer\<close> returns with every variable unchanged. If no planner
  block is held and the planner returns no block (the system-motion block when
  \<open>STEP_CONTROL_EXECUTE_SYS_MOTION\<close> is set, the current block otherwise), the pass of
  the loop returns, and so does \<open>Stepper_PrepareBuffer\<close> from that state (whether it
  was entered there or reached it after earlier passes), with every variable unchanged:
  the ring indices and the ring contents keep their values and no segment is enqueued.
\<close>

theorem PrepareBuffer_returns_unchanged:
  "(BIT_IS_TRUE (sys_step_control m) (STEP_CONTROL_END_MOTION cfg)
      \<longrightarrow> Stepper_PrepareBuffer cfg m = Some (Inr m))
   \<and> (pl_block m = None
       \<and> (if BIT_IS_TRUE (sys_step_control m) (STEP_CONTROL_EXECUTE_SYS_MOTION cfg)
           then Planner_GetSystemMotionBlock m else Planner_GetCurrentBlock m) = None
      \<longrightarrow> prep_iteration cfg m = Some (Inr (Return m))
          \<and> prep_loop cfg m = Some (Inr m)
          \<and> Stepper_PrepareBuffer cfg m = Some (Inr m))"
proof -
  have a: "Stepper_PrepareBuffer cfg m = Some (Inr m)"
    if "BIT_IS_TRUE (sys_step_control m) (STEP_CONTROL_END_MOTION cfg)"
    using that by (simp add: Stepper_PrepareBuffer_def)
  have b: "prep_iteration cfg m = Some (Inr (Return m))
          \<and> prep_loop cfg m = Some (Inr m)
          \<and> Stepper_PrepareBuffer cfg m = Some (Inr m)"
    if n: "pl_block m = None"
      and p: "(if BIT_IS_TRUE (sys_step_control m) (STEP_CONTROL_EXECUTE_SYS_MOTION cfg)
           then Planner_GetSystemMotionBlock m else Planner_GetCurrentBlock m) = None"
  proof -
    have it: "prep_iteration cfg m = Some (Inr (Return m))"
      using n prep_acquire_None [OF n p] by (simp add: prep_iteration_def)
    have lp: "prep_loop cfg m = Some (Inr m)"
      by (subst prep_loop.simps) (simp add: it)
    show ?thesis using it lp by (simp add: Stepper_PrepareBuffer_def)
  qed
  show ?thesis using a b by blast
qed

text \<open>The state that \<open>Stepper_Reset\<close> leaves at power-on.\<close>

lemma reset_machine_eq:
  "reset_machine =
     power_on\<lparr>segment_next_head := 1,
       hw_trace := [TIM_Cmd False, Delay_us 1, GPIO_ResetBits (GPIO_STEP X_AXIS),
         GPIO_ResetBits (GPIO_STEP Y_AXIS), GPIO_ResetBits (GPIO_STEP Z_AXIS), Delay_ms 0,
         GPIO_SetBits GPIO_ENABLE, GPIO_ResetBits (GPIO_STEP X_AXIS),
         GPIO_ResetBits (GPIO_STEP Y_AXIS), GPIO_ResetBits (GPIO_STEP Z_AXIS),
         GPIO_ResetBits (GPIO_DIR X_AXIS), GPIO_ResetBits (GPIO_DIR Y_AXIS),
         GPIO_ResetBits (GPIO_DIR Z_AXIS)]\<rparr>"
  by (simp add: reset_machine_def Stepper_Reset_def Stepper_Disable_def Stepper_PortResetISR_def
        Stepper_GenerateStepDirInvertMasks_def idle_lock_def GPIO_write_def emit_def Let_def
        BIT_IS_TRUE_def power_on_def example_config_def zero_Stepper_t_def
        zero_Stepper_PrepData_t_def)

theorem PrepareBuffer_returns_unchanged_witness:
  "BIT_IS_TRUE (sys_step_control end_motion_machine) (STEP_CONTROL_END_MOTION example_config)
   \<and> segment_buffer_tail end_motion_machine \<noteq> segment_next_head end_motion_machine
   \<and> pl_block end_motion_machine = None
   \<and> Planner_GetCurrentBlock end_motion_machine = Some 0
   \<and> Stepper_PrepareBuffer example_config end_motion_machine = Some (Inr end_motion_machine)
   \<and> segment_buffer_tail reset_machine \<noteq> segment_next_head reset_machine
   \<and> \<not> BIT_IS_TRUE (sys_step_control reset_machine) (STEP_CONTROL_END_MOTION example_config)
   \<and> pl_block reset_machine = None
   \<and> Planner_GetCurrentBlock reset_machine = None
   \<and> \<not> BIT_IS_TRUE (sys_step_control reset_machine)
           (STEP_CONTROL_EXECUTE_SYS_MOTION example_config)
   \<and> prep_iteration example_config reset_machine = Some (Inr (Return reset_machine))
   \<and> Stepper_PrepareBuffer example_config reset_machine = Some (Inr reset_machine)"
proof -
  have h1: "BIT_IS_TRUE (sys_step_control end_motion_machine)
              (STEP_CONTROL_END_MOTION example_config)"
    by (simp add: end_motion_machine_def example_config_def BIT_IS_TRUE_def)
  have e: "segment_buffer_tail end_motion_machine \<noteq> segment_next_head end_motion_machine"
    "pl_block end_motion_machine = None"
    "Planner_GetCurrentBlock end_motion_machine = Some 0"
    by (simp_all add: end_motion_machine_def fast_machine_def reset_machine_eq power_on_def
          Planner_GetCurrentBlock_def)
  have g: "segment_buffer_tail reset_machine \<noteq> segment_next_head reset_machine"
    "\<not> BIT_IS_TRUE (sys_step_control reset_machine) (STEP_CONTROL_END_MOTION example_config)"
    by (simp_all add: reset_machine_eq power_on_def BIT_IS_TRUE_def)
  have h2: "pl_block reset_machine = None" by (simp add: reset_machine_eq power_on_def)
  have h3: "Planner_GetCurrentBlock reset_machine = None"
    by (simp add: reset_machine_eq power_on_def Planner_GetCurrentBlock_def)
  have h4: "\<not> BIT_IS_TRUE (sys_step_control reset_machine)
                (STEP_CONTROL_EXECUTE_SYS_MOTION example_config)"
    by (simp add: reset_machine_eq power_on_def BIT_IS_TRUE_def)
  have r1: "Stepper_PrepareBuffer example_config end_motion_machine
              = Some (Inr end_motion_machine)"
    using PrepareBuffer_returns_unchanged [of end_motion_machine example_config] h1 by blast
  have r2: "prep_iteration example_config reset_machine = Some (Inr (Return reset_machine))"
    "Stepper_PrepareBuffer example_config reset_machine = Some (Inr reset_machine)"
    using PrepareBuffer_returns_unchanged [of reset_machine example_config] h2 h3 h4 by simp_all
  show ?thesis using h1 e g h2 h3 h4 r1 r2 by blast
qed


section \<open>The ring of segments\<close>

text \<open>What the steps of a pass of the preparer do to the ring.\<close>

lemma prep_amass_frame [simp]:
  "st_block_index (prep_amass cfg cycles seg) = st_block_index seg"
  "spindle_pwm (prep_amass cfg cycles seg) = spindle_pwm seg"
  "backlash_motion (prep_amass cfg cycles seg) = backlash_motion seg"
  by (simp_all add: prep_amass_def Let_def)

lemma prep_end_motion_ring [simp]:
  "segment_buffer (prep_end_motion cfg p m) = segment_buffer m"
  "segment_buffer_head (prep_end_motion cfg p m) = segment_buffer_head m"
  "segment_next_head (prep_end_motion cfg p m) = segment_next_head m"
  "segment_buffer_tail (prep_end_motion cfg p m) = segment_buffer_tail m"
  by (simp_all add: prep_end_motion_def Let_def)

lemma prep_exit_ring [simp]:
  "segment_buffer (flow_machine (prep_exit cfg mm m)) = segment_buffer m"
  "segment_buffer_head (flow_machine (prep_exit cfg mm m)) = segment_buffer_head m"
  "segment_next_head (flow_machine (prep_exit cfg mm m)) = segment_next_head m"
  "segment_buffer_tail (flow_machine (prep_exit cfg mm m)) = segment_buffer_tail m"
  by (simp_all add: prep_exit_def flow_machine_def Planner_DiscardCurrentBlock_def)

lemma prep_commit_ring [simp]:
  "segment_buffer (prep_commit cfg b mm nsr dtr m) = segment_buffer m"
  "segment_buffer_head (prep_commit cfg b mm nsr dtr m) = segment_next_head m"
  "segment_next_head (prep_commit cfg b mm nsr dtr m) =
     (if unat (segment_next_head m + 1) = SEGMENT_BUFFER_SIZE cfg then 0
      else segment_next_head m + 1)"
  "segment_buffer_tail (prep_commit cfg b mm nsr dtr m) = segment_buffer_tail m"
  by (simp_all add: prep_commit_def Let_def)

lemma segment_cycles_slot [simp]:
  "segment_cycles cfg v (m\<lparr>segment_buffer := sb\<rparr>) = segment_cycles cfg v m"
  by (simp add: segment_cycles_def segment_inv_rate_def)

text \<open>The two ways \<open>prep_steps\<close> ends without an error.\<close>

lemma prep_steps_bail:
  assumes "segment_n_step v m = Inr 0"
    and "BIT_IS_TRUE (sys_step_control m) (STEP_CONTROL_EXECUTE_HOLD cfg)"
  shows "prep_steps cfg b v m =
           Inr (Return (prep_end_motion cfg True
                  (m\<lparr>segment_buffer := (segment_buffer m)
                       (unat (segment_buffer_head m) :=
                          (segment_buffer m (unat (segment_buffer_head m)))\<lparr>n_step := 0\<rparr>)\<rparr>)))"
  using assms by (simp add: prep_steps_def Let_def)

lemma prep_steps_commit:
  assumes n: "segment_n_step v m = Inr n"
    and c: "segment_cycles cfg v m = Inr cycles"
    and nb: "\<not> (n = 0 \<and> BIT_IS_TRUE (sys_step_control m) (STEP_CONTROL_EXECUTE_HOLD cfg))"
  shows "\<exists>fl. prep_steps cfg b v m = Inr fl
           \<and> segment_buffer (flow_machine fl) =
               (segment_buffer m)
                 (unat (segment_buffer_head m) :=
                    prep_amass cfg cycles
                      ((segment_buffer m (unat (segment_buffer_head m)))\<lparr>n_step := n\<rparr>))
           \<and> segment_buffer_head (flow_machine fl) = segment_next_head m
           \<and> segment_next_head (flow_machine fl) =
               (if unat (segment_next_head m + 1) = SEGMENT_BUFFER_SIZE cfg then 0
                else segment_next_head m + 1)
           \<and> segment_buffer_tail (flow_machine fl) = segment_buffer_tail m"
proof -
  have nb': "(n = 0 \<and> BIT_IS_TRUE (sys_step_control m) (STEP_CONTROL_EXECUTE_HOLD cfg)) = False"
    using nb by simp
  show ?thesis by (simp add: prep_steps_def Let_def n c nb')
qed

lemma prep_steps_cases:
  assumes "prep_steps cfg b v m = Inr fl"
  shows "\<exists>n. segment_n_step v m = Inr n \<and>
           (if n = 0 \<and> BIT_IS_TRUE (sys_step_control m) (STEP_CONTROL_EXECUTE_HOLD cfg)
            then True else (\<exists>cycles. segment_cycles cfg v m = Inr cycles))"
proof (cases "segment_n_step v m")
  case (Inl e)
  then show ?thesis using assms by (simp add: prep_steps_def Let_def)
next
  case (Inr n)
  show ?thesis
  proof (cases "n = 0 \<and> BIT_IS_TRUE (sys_step_control m) (STEP_CONTROL_EXECUTE_HOLD cfg)")
    case True
    then show ?thesis using Inr by simp
  next
    case False
    show ?thesis
    proof (cases "segment_cycles cfg v m")
      case (Inl e)
      then show ?thesis using assms Inr False by (simp add: prep_steps_def Let_def)
    next
      case c: (Inr cycles)
      then show ?thesis using Inr False by simp
    qed
  qed
qed

lemma prep_steps_Inr:
  assumes "prep_steps cfg b v m = Inr fl"
  shows "\<exists>n. segment_n_step v m = Inr n \<and>
           (if n = 0 \<and> BIT_IS_TRUE (sys_step_control m) (STEP_CONTROL_EXECUTE_HOLD cfg)
            then fl = Return (prep_end_motion cfg True
                  (m\<lparr>segment_buffer := (segment_buffer m)
                       (unat (segment_buffer_head m) :=
                          (segment_buffer m (unat (segment_buffer_head m)))\<lparr>n_step := 0\<rparr>)\<rparr>))
            else (\<exists>cycles. segment_cycles cfg v m = Inr cycles
                    \<and> segment_buffer (flow_machine fl) =
                        (segment_buffer m)
                          (unat (segment_buffer_head m) :=
                             prep_amass cfg cycles
                               ((segment_buffer m (unat (segment_buffer_head m)))\<lparr>n_step := n\<rparr>))
                    \<and> segment_buffer_head (flow_machine fl) = segment_next_head m
                    \<and> segment_next_head (flow_machine fl) =
                        (if unat (segment_next_head m + 1) = SEGMENT_BUFFER_SIZE cfg then 0
                         else segment_next_head m + 1)
                    \<and> segment_buffer_tail (flow_machine fl) = segment_buffer_tail m))"
proof -
  obtain n where n: "segment_n_step v m = Inr n"
    and r: "if n = 0 \<and> BIT_IS_TRUE (sys_step_control m) (STEP_CONTROL_EXECUTE_HOLD cfg)
            then True else (\<exists>cycles. segment_cycles cfg v m = Inr cycles)"
    using prep_steps_cases [OF assms] by blast
  show ?thesis
  proof (cases "n = 0 \<and> BIT_IS_TRUE (sys_step_control m) (STEP_CONTROL_EXECUTE_HOLD cfg)")
    case True
    then have "prep_steps cfg b v m =
           Inr (Return (prep_end_motion cfg True
                  (m\<lparr>segment_buffer := (segment_buffer m)
                       (unat (segment_buffer_head m) :=
                          (segment_buffer m (unat (segment_buffer_head m)))\<lparr>n_step := 0\<rparr>)\<rparr>)))"
      using n by (intro prep_steps_bail) simp_all
    then have "fl = Return (prep_end_motion cfg True
                  (m\<lparr>segment_buffer := (segment_buffer m)
                       (unat (segment_buffer_head m) :=
                          (segment_buffer m (unat (segment_buffer_head m)))\<lparr>n_step := 0\<rparr>)\<rparr>))"
      using assms by simp
    then show ?thesis using n True by simp
  next
    case False
    then obtain cycles where c: "segment_cycles cfg v m = Inr cycles" using r by auto
    obtain fl' where "prep_steps cfg b v m = Inr fl'"
      and f: "segment_buffer (flow_machine fl') =
               (segment_buffer m)
                 (unat (segment_buffer_head m) :=
                    prep_amass cfg cycles
                      ((segment_buffer m (unat (segment_buffer_head m)))\<lparr>n_step := n\<rparr>))"
        "segment_buffer_head (flow_machine fl') = segment_next_head m"
        "segment_next_head (flow_machine fl') =
               (if unat (segment_next_head m + 1) = SEGMENT_BUFFER_SIZE cfg then 0
                else segment_next_head m + 1)"
        "segment_buffer_tail (flow_machine fl') = segment_buffer_tail m"
      using prep_steps_commit [OF n c False, of b] by (elim exE conjE) (rule that; assumption)
    then have "fl' = fl" using assms by simp
    then have f': "segment_buffer (flow_machine fl) =
               (segment_buffer m)
                 (unat (segment_buffer_head m) :=
                    prep_amass cfg cycles
                      ((segment_buffer m (unat (segment_buffer_head m)))\<lparr>n_step := n\<rparr>))"
        "segment_buffer_head (flow_machine fl) = segment_next_head m"
        "segment_next_head (flow_machine fl) =
               (if unat (segment_next_head m + 1) = SEGMENT_BUFFER_SIZE cfg then 0
                else segment_next_head m + 1)"
        "segment_buffer_tail (flow_machine fl) = segment_buffer_tail m"
      using f by simp_all
    have F: "(n = 0 \<and> BIT_IS_TRUE (sys_step_control m) (STEP_CONTROL_EXECUTE_HOLD cfg)) = False"
      using False by simp
    show ?thesis by (rule exI [of _ n]) (simp add: n F c f')
  qed
qed

lemma prep_carve_Some:
  assumes "prep_carve cfg b m = Some vm"
  shows "segment_buffer_head (snd vm) = segment_buffer_head m"
    and "segment_next_head (snd vm) = segment_next_head m"
    and "segment_buffer_tail (snd vm) = segment_buffer_tail m"
    and "segment_buffer (snd vm) =
           (segment_buffer m)
             (unat (segment_buffer_head m) :=
                (segment_buffer m (unat (segment_buffer_head m)))
                  \<lparr>st_block_index := prep_st_block_index (prep m),
                   backlash_motion := pl_backlash_motion (block_buffer m b)\<rparr>)"
    and "sys_step_control (snd vm) = sys_step_control m"
    and "block_buffer (snd vm) = block_buffer m"
    and "st_block_buffer (snd vm) = st_block_buffer m"
    and "st_prep_block (snd vm) = st_prep_block m"
    and "pl_block (snd vm) = pl_block m"
  using assms by (auto simp add: prep_carve_def Let_def)

lemma prep_spindle_Inr:
  assumes "prep_spindle cfg b m = Inr m3"
  shows "segment_buffer_head m3 = segment_buffer_head m"
    and "segment_next_head m3 = segment_next_head m"
    and "segment_buffer_tail m3 = segment_buffer_tail m"
    and "\<exists>pwm. segment_buffer m3 =
           (segment_buffer m)
             (unat (segment_buffer_head m) :=
                (segment_buffer m (unat (segment_buffer_head m)))\<lparr>spindle_pwm := pwm\<rparr>)"
    and "block_buffer m3 = block_buffer m"
    and "st_block_buffer m3 = st_block_buffer m"
    and "pl_block m3 = pl_block m"
  using assms
  by (auto simp add: prep_spindle_def Let_def split: option.splits if_splits)

text \<open>
  A pass of the loop that ends without an error: either the planner had no block, or
  the pass reached the step computation in a state \<open>mc\<close> that differs from \<open>m\<close> in the
  ring only in the slot at the head.
\<close>

lemma prep_iteration_Inr:
  assumes "prep_iteration cfg m = Some (Inr fl)"
  shows "(pl_block m = None \<and> prep_acquire cfg m = fl \<and> (\<exists>m1. fl = Return m1)
            \<and> segment_buffer (flow_machine fl) = segment_buffer m
            \<and> segment_buffer_head (flow_machine fl) = segment_buffer_head m
            \<and> segment_next_head (flow_machine fl) = segment_next_head m
            \<and> segment_buffer_tail (flow_machine fl) = segment_buffer_tail m)
         \<or> (\<exists>b v mc. prep_steps cfg b v mc = Inr fl
               \<and> segment_buffer_head mc = segment_buffer_head m
               \<and> segment_next_head mc = segment_next_head m
               \<and> segment_buffer_tail mc = segment_buffer_tail m
               \<and> pl_block mc = Some b
               \<and> (\<forall>i. i \<noteq> unat (segment_buffer_head m)
                      \<longrightarrow> segment_buffer mc i = segment_buffer m i))"
proof (cases "if pl_block m = None then prep_acquire cfg m else Continue m")
  case (Return m1)
  then have n: "pl_block m = None" and a: "prep_acquire cfg m = Return m1"
    by (auto split: if_splits)
  have fl: "fl = Return m1" using assms Return by (simp add: prep_iteration_def)
  have "flow_machine (prep_acquire cfg m) = m1" using a by (simp add: flow_machine_def)
  then have "segment_buffer m1 = segment_buffer m" "segment_buffer_head m1 = segment_buffer_head m"
    "segment_next_head m1 = segment_next_head m" "segment_buffer_tail m1 = segment_buffer_tail m"
    using prep_acquire_ring [of cfg m] by auto
  then show ?thesis using n a fl by (simp add: flow_machine_def)
next
  case (Continue m1)
  have r1: "segment_buffer m1 = segment_buffer m" "segment_buffer_head m1 = segment_buffer_head m"
    "segment_next_head m1 = segment_next_head m" "segment_buffer_tail m1 = segment_buffer_tail m"
  proof -
    have "m1 = m \<or> flow_machine (prep_acquire cfg m) = m1"
      using Continue by (auto simp add: flow_machine_def split: if_splits)
    then show "segment_buffer m1 = segment_buffer m" "segment_buffer_head m1 = segment_buffer_head m"
      "segment_next_head m1 = segment_next_head m" "segment_buffer_tail m1 = segment_buffer_tail m"
      using prep_acquire_ring [of cfg m] by auto
  qed
  from assms Continue obtain b vm m3 where b: "pl_block m1 = Some b"
    and cv: "prep_carve cfg b m1 = Some vm"
    and sp: "prep_spindle cfg b (snd vm) = Inr m3"
    and st: "prep_steps cfg b (fst vm) m3 = Inr fl"
    by (auto simp add: prep_iteration_def split: option.splits sum.splits)
  note c = prep_carve_Some [OF cv]
  note p = prep_spindle_Inr [OF sp]
  obtain pwm where pw: "segment_buffer m3 =
           (segment_buffer (snd vm))
             (unat (segment_buffer_head (snd vm)) :=
                (segment_buffer (snd vm) (unat (segment_buffer_head (snd vm))))\<lparr>spindle_pwm := pwm\<rparr>)"
    using p(4) by blast
  have "segment_buffer_head m3 = segment_buffer_head m" "segment_next_head m3 = segment_next_head m"
    "segment_buffer_tail m3 = segment_buffer_tail m" "pl_block m3 = Some b"
    "\<forall>i. i \<noteq> unat (segment_buffer_head m) \<longrightarrow> segment_buffer m3 i = segment_buffer m i"
    using c p(1-3,7) r1 b pw by simp_all
  then show ?thesis using st by blast
qed

text \<open>What a pass that ends without an error does to the ring.\<close>

lemma prep_iteration_ring:
  assumes "prep_iteration cfg m = Some (Inr fl)"
  shows "segment_buffer_tail (flow_machine fl) = segment_buffer_tail m"
    and "\<forall>j. j \<noteq> unat (segment_buffer_head m)
            \<longrightarrow> segment_buffer (flow_machine fl) j = segment_buffer m j"
    and "(segment_buffer_head (flow_machine fl) = segment_buffer_head m
            \<and> segment_next_head (flow_machine fl) = segment_next_head m)
         \<or> (segment_buffer_head (flow_machine fl) = segment_next_head m
            \<and> segment_next_head (flow_machine fl) =
                (if unat (segment_next_head m + 1) = SEGMENT_BUFFER_SIZE cfg then 0
                 else segment_next_head m + 1))"
proof -
  consider (ret) "segment_buffer (flow_machine fl) = segment_buffer m"
      "segment_buffer_head (flow_machine fl) = segment_buffer_head m"
      "segment_next_head (flow_machine fl) = segment_next_head m"
      "segment_buffer_tail (flow_machine fl) = segment_buffer_tail m"
    | (steps) b v mc where "prep_steps cfg b v mc = Inr fl"
      "segment_buffer_head mc = segment_buffer_head m"
      "segment_next_head mc = segment_next_head m"
      "segment_buffer_tail mc = segment_buffer_tail m"
      "\<forall>i. i \<noteq> unat (segment_buffer_head m) \<longrightarrow> segment_buffer mc i = segment_buffer m i"
    using prep_iteration_Inr [OF assms] by blast
  then have "segment_buffer_tail (flow_machine fl) = segment_buffer_tail m
    \<and> (\<forall>j. j \<noteq> unat (segment_buffer_head m)
            \<longrightarrow> segment_buffer (flow_machine fl) j = segment_buffer m j)
    \<and> ((segment_buffer_head (flow_machine fl) = segment_buffer_head m
            \<and> segment_next_head (flow_machine fl) = segment_next_head m)
         \<or> (segment_buffer_head (flow_machine fl) = segment_next_head m
            \<and> segment_next_head (flow_machine fl) =
                (if unat (segment_next_head m + 1) = SEGMENT_BUFFER_SIZE cfg then 0
                 else segment_next_head m + 1)))"
  proof cases
    case ret
    then show ?thesis by simp
  next
    case steps
    obtain n where n: "segment_n_step v mc = Inr n"
      and r: "if n = 0 \<and> BIT_IS_TRUE (sys_step_control mc) (STEP_CONTROL_EXECUTE_HOLD cfg)
            then fl = Return (prep_end_motion cfg True
                  (mc\<lparr>segment_buffer := (segment_buffer mc)
                       (unat (segment_buffer_head mc) :=
                          (segment_buffer mc (unat (segment_buffer_head mc)))\<lparr>n_step := 0\<rparr>)\<rparr>))
            else (\<exists>cycles. segment_cycles cfg v mc = Inr cycles
                    \<and> segment_buffer (flow_machine fl) =
                        (segment_buffer mc)
                          (unat (segment_buffer_head mc) :=
                             prep_amass cfg cycles
                               ((segment_buffer mc (unat (segment_buffer_head mc)))\<lparr>n_step := n\<rparr>))
                    \<and> segment_buffer_head (flow_machine fl) = segment_next_head mc
                    \<and> segment_next_head (flow_machine fl) =
                        (if unat (segment_next_head mc + 1) = SEGMENT_BUFFER_SIZE cfg then 0
                         else segment_next_head mc + 1)
                    \<and> segment_buffer_tail (flow_machine fl) = segment_buffer_tail mc)"
      using prep_steps_Inr [OF steps(1)] by blast
    show ?thesis
    proof (cases "n = 0 \<and> BIT_IS_TRUE (sys_step_control mc) (STEP_CONTROL_EXECUTE_HOLD cfg)")
      case True
      then have "fl = Return (prep_end_motion cfg True
                  (mc\<lparr>segment_buffer := (segment_buffer mc)
                       (unat (segment_buffer_head mc) :=
                          (segment_buffer mc (unat (segment_buffer_head mc)))\<lparr>n_step := 0\<rparr>)\<rparr>))"
        using r by simp
      then show ?thesis using steps(2-5) by (simp add: flow_machine_def)
    next
      case False
      with r have "\<exists>cycles. segment_cycles cfg v mc = Inr cycles
                    \<and> segment_buffer (flow_machine fl) =
                        (segment_buffer mc)
                          (unat (segment_buffer_head mc) :=
                             prep_amass cfg cycles
                               ((segment_buffer mc (unat (segment_buffer_head mc)))\<lparr>n_step := n\<rparr>))
                    \<and> segment_buffer_head (flow_machine fl) = segment_next_head mc
                    \<and> segment_next_head (flow_machine fl) =
                        (if unat (segment_next_head mc + 1) = SEGMENT_BUFFER_SIZE cfg then 0
                         else segment_next_head mc + 1)
                    \<and> segment_buffer_tail (flow_machine fl) = segment_buffer_tail mc"
        by (simp only: if_False)
      then obtain cycles where sb: "segment_buffer (flow_machine fl) =
                        (segment_buffer mc)
                          (unat (segment_buffer_head mc) :=
                             prep_amass cfg cycles
                               ((segment_buffer mc (unat (segment_buffer_head mc)))\<lparr>n_step := n\<rparr>))"
        and h: "segment_buffer_head (flow_machine fl) = segment_next_head mc"
        and nh: "segment_next_head (flow_machine fl) =
                        (if unat (segment_next_head mc + 1) = SEGMENT_BUFFER_SIZE cfg then 0
                         else segment_next_head mc + 1)"
        and tl: "segment_buffer_tail (flow_machine fl) = segment_buffer_tail mc"
        by (elim exE conjE) (rule that; assumption)
      have 1: "segment_buffer_tail (flow_machine fl) = segment_buffer_tail m"
        using tl steps(4) by simp
      have 2: "\<forall>j. j \<noteq> unat (segment_buffer_head m)
            \<longrightarrow> segment_buffer (flow_machine fl) j = segment_buffer m j"
        using steps(2,5) by (simp add: sb)
      have 3: "segment_buffer_head (flow_machine fl) = segment_next_head m
            \<and> segment_next_head (flow_machine fl) =
                (if unat (segment_next_head m + 1) = SEGMENT_BUFFER_SIZE cfg then 0
                 else segment_next_head m + 1)"
        using h nh steps(3) by simp
      show ?thesis using 1 2 3 by blast
    qed
  qed
  then show "segment_buffer_tail (flow_machine fl) = segment_buffer_tail m"
    and "\<forall>j. j \<noteq> unat (segment_buffer_head m)
            \<longrightarrow> segment_buffer (flow_machine fl) j = segment_buffer m j"
    and "(segment_buffer_head (flow_machine fl) = segment_buffer_head m
            \<and> segment_next_head (flow_machine fl) = segment_next_head m)
         \<or> (segment_buffer_head (flow_machine fl) = segment_next_head m
            \<and> segment_next_head (flow_machine fl) =
                (if unat (segment_next_head m + 1) = SEGMENT_BUFFER_SIZE cfg then 0
                 else segment_next_head m + 1))"
    by blast+
qed

text \<open>The index after an index of the ring, and the count of segments after a commit.\<close>

lemma next_index:
  fixes w :: "8 word"
  assumes "unat w < S" "S \<le> 256"
  shows "unat (if unat (w + 1) = S then 0 else w + 1) = (unat w + 1) mod S"
proof (cases "unat w = 255")
  case True
  then have S: "S = 256" using assms by simp
  have "w = of_nat (unat w)" by simp
  then have "w = 255" by (simp only: True) simp
  then show ?thesis using S by simp
next
  case False
  have "unat w < 2 ^ LENGTH(8)" by (rule unsigned_less)
  then have "unat w < 256" by simp
  then have lt: "unat w + 1 < 256" using False by simp
  have u: "unat (w + 1) = unat w + 1"
    using lt by (simp add: unat_word_ariths)
  show ?thesis using assms u by (auto simp add: mod_if)
qed


lemma ring_count_step:
  fixes h t S :: nat
  assumes "h < S" "t < S" "t \<noteq> (h + 1) mod S"
  shows "((h + 1) mod S + S - t) mod S = (h + S - t) mod S + 1"
proof (cases "h + 1 = S")
  case True
  then have t0: "t \<noteq> 0" using assms by auto
  have a: "(h + 1) mod S = 0" using True by simp
  have "(0 + S - t) mod S = S - t" using t0 assms by simp
  moreover have "(h + S - t) mod S = h - t"
  proof -
    have "h + S - t = (h - t) + S" using assms True by simp
    then have "(h + S - t) mod S = (h - t) mod S" by simp
    then show ?thesis using assms by simp
  qed
  ultimately show ?thesis using a True assms by simp
next
  case False
  then have lt: "h + 1 < S" using assms by simp
  then have a: "(h + 1) mod S = h + 1" by simp
  have ne: "t \<noteq> h + 1" using assms a by simp
  show ?thesis
  proof (cases "t \<le> h")
    case True
    have 1: "(h + S - t) mod S = h - t"
    proof -
      have "h + S - t = (h - t) + S" using True by simp
      then have "(h + S - t) mod S = (h - t) mod S" by simp
      then show ?thesis using assms by simp
    qed
    have 2: "(h + 1 + S - t) mod S = h + 1 - t"
    proof -
      have "h + 1 + S - t = (h + 1 - t) + S" using True by simp
      then have "(h + 1 + S - t) mod S = (h + 1 - t) mod S" by simp
      then show ?thesis using lt by simp
    qed
    show ?thesis using 1 2 a True by simp
  next
    case False
    then have "h + 1 < t" using ne by simp
    then show ?thesis using a assms by simp
  qed
qed

lemma ring_commit:
  assumes S: "SEGMENT_BUFFER_SIZE cfg \<le> 256"
    and inv: "ring_inv cfg m" and guard: "segment_buffer_tail m \<noteq> segment_next_head m"
    and h: "segment_buffer_head m' = segment_next_head m"
    and nh: "segment_next_head m' =
              (if unat (segment_next_head m + 1) = SEGMENT_BUFFER_SIZE cfg then 0
               else segment_next_head m + 1)"
    and t: "segment_buffer_tail m' = segment_buffer_tail m"
  shows "ring_inv cfg m'" and "ring_count cfg m' = ring_count cfg m + 1"
proof -
  let ?S = "SEGMENT_BUFFER_SIZE cfg"
  have hS: "unat (segment_buffer_head m) < ?S" and tS: "unat (segment_buffer_tail m) < ?S"
    and n: "unat (segment_next_head m) = (unat (segment_buffer_head m) + 1) mod ?S"
    using inv by (simp_all add: ring_inv_def)
  have S0: "0 < ?S" using hS by simp
  have nS: "unat (segment_next_head m) < ?S" using n S0 by simp
  have g: "unat (segment_buffer_tail m) \<noteq> (unat (segment_buffer_head m) + 1) mod ?S"
    using guard n by (simp add: word_unat_eq_iff)
  have n': "unat (segment_next_head m') = (unat (segment_next_head m) + 1) mod ?S"
    unfolding nh using next_index [OF nS S] .
  show "ring_inv cfg m'"
    using nS tS n' by (simp add: ring_inv_def h t)
  show "ring_count cfg m' = ring_count cfg m + 1"
    using ring_count_step [OF hS tS g] by (simp add: ring_count_def h t n)
qed

lemma not_occupied_head: "\<not> occupied cfg m (unat (segment_buffer_head m))"
  by (simp add: occupied_def ring_count_def)

lemma occupied_mono:
  assumes "segment_buffer_tail m' = segment_buffer_tail m" "ring_count cfg m \<le> ring_count cfg m'"
    and "occupied cfg m j"
  shows "occupied cfg m' j"
  using assms by (simp add: occupied_def)

text \<open>One pass of the preparer's loop.\<close>

lemma prep_iteration_ring_inv:
  assumes S: "SEGMENT_BUFFER_SIZE cfg \<le> 256"
    and inv: "ring_inv cfg m" and guard: "segment_buffer_tail m \<noteq> segment_next_head m"
    and it: "prep_iteration cfg m = Some (Inr fl)"
  shows "ring_inv cfg (flow_machine fl)"
    and "segment_buffer_tail (flow_machine fl) = segment_buffer_tail m"
    and "\<forall>j. j \<noteq> unat (segment_buffer_head m)
            \<longrightarrow> segment_buffer (flow_machine fl) j = segment_buffer m j"
    and "(segment_buffer_head (flow_machine fl) = segment_buffer_head m
            \<and> segment_next_head (flow_machine fl) = segment_next_head m
            \<and> ring_count cfg (flow_machine fl) = ring_count cfg m)
         \<or> (segment_buffer_head (flow_machine fl) = segment_next_head m
            \<and> ring_count cfg (flow_machine fl) = ring_count cfg m + 1)"
proof -
  note r = prep_iteration_ring [OF it]
  show "segment_buffer_tail (flow_machine fl) = segment_buffer_tail m" by (rule r(1))
  show "\<forall>j. j \<noteq> unat (segment_buffer_head m)
            \<longrightarrow> segment_buffer (flow_machine fl) j = segment_buffer m j" by (rule r(2))
  have "ring_inv cfg (flow_machine fl) \<and>
        ((segment_buffer_head (flow_machine fl) = segment_buffer_head m
            \<and> segment_next_head (flow_machine fl) = segment_next_head m
            \<and> ring_count cfg (flow_machine fl) = ring_count cfg m)
         \<or> (segment_buffer_head (flow_machine fl) = segment_next_head m
            \<and> ring_count cfg (flow_machine fl) = ring_count cfg m + 1))"
    using r(3)
  proof
    assume a: "segment_buffer_head (flow_machine fl) = segment_buffer_head m
            \<and> segment_next_head (flow_machine fl) = segment_next_head m"
    then show ?thesis using inv r(1) by (simp add: ring_inv_def ring_count_def)
  next
    assume a: "segment_buffer_head (flow_machine fl) = segment_next_head m
            \<and> segment_next_head (flow_machine fl) =
                (if unat (segment_next_head m + 1) = SEGMENT_BUFFER_SIZE cfg then 0
                 else segment_next_head m + 1)"
    then have h: "segment_buffer_head (flow_machine fl) = segment_next_head m"
      and nh: "segment_next_head (flow_machine fl) =
                (if unat (segment_next_head m + 1) = SEGMENT_BUFFER_SIZE cfg then 0
                 else segment_next_head m + 1)"
      by simp_all
    show ?thesis using ring_commit [OF S inv guard h nh r(1)] h by simp
  qed
  then show "ring_inv cfg (flow_machine fl)"
    and "(segment_buffer_head (flow_machine fl) = segment_buffer_head m
            \<and> segment_next_head (flow_machine fl) = segment_next_head m
            \<and> ring_count cfg (flow_machine fl) = ring_count cfg m)
         \<or> (segment_buffer_head (flow_machine fl) = segment_next_head m
            \<and> ring_count cfg (flow_machine fl) = ring_count cfg m + 1)"
    by blast+
qed

text \<open>The whole loop, by induction on its unfolding.\<close>

lemma prep_loop_ring_inv:
  assumes lp: "prep_loop cfg m = Some r"
  shows "SEGMENT_BUFFER_SIZE cfg \<le> 256 \<longrightarrow>
         (\<forall>m'. r = Inr m' \<longrightarrow> ring_inv cfg m \<longrightarrow>
           ring_inv cfg m' \<and> segment_buffer_tail m' = segment_buffer_tail m
           \<and> ring_count cfg m \<le> ring_count cfg m'
           \<and> (\<forall>j. occupied cfg m j \<longrightarrow> segment_buffer m' j = segment_buffer m j))"
  using lp
proof (induction cfg m r rule: prep_loop.raw_induct [rotated 1, consumes 1, case_names step])
  case (step prep_loop cfg m r)
  show ?case
  proof (intro allI impI)
    fix m'
    assume S: "SEGMENT_BUFFER_SIZE cfg \<le> 256"
    assume r: "r = Inr m'" and inv: "ring_inv cfg m"
    show "ring_inv cfg m' \<and> segment_buffer_tail m' = segment_buffer_tail m
           \<and> ring_count cfg m \<le> ring_count cfg m'
           \<and> (\<forall>j. occupied cfg m j \<longrightarrow> segment_buffer m' j = segment_buffer m j)"
    proof (cases "segment_buffer_tail m \<noteq> segment_next_head m")
      case False
      then have "m' = m" using step(2) r by simp
      then show ?thesis using inv by simp
    next
      case True
      then obtain x where it: "prep_iteration cfg m = Some x"
        and rest: "(case x of Inl e \<Rightarrow> Some (Inl e)
                 | Inr (Continue m1) \<Rightarrow> prep_loop cfg m1
                 | Inr (Return m1) \<Rightarrow> Some (Inr m1)) = Some r"
        using step(2) by (auto simp add: bind_eq_Some_conv)
      show ?thesis
      proof (cases x)
        case (Inl e)
        then show ?thesis using rest r by simp
      next
        case (Inr fl)
        note p = prep_iteration_ring_inv [OF S inv True it [unfolded Inr]]
        have cnt: "ring_count cfg m \<le> ring_count cfg (flow_machine fl)"
          using p(4) by auto
        have keep: "\<forall>j. occupied cfg m j \<longrightarrow> segment_buffer (flow_machine fl) j = segment_buffer m j"
          using p(3) not_occupied_head [of cfg m] by metis
        show ?thesis
        proof (cases fl)
          case (Return m1)
          then have "m' = m1" using rest Inr r by simp
          then show ?thesis using p(1,2) cnt keep Return by (simp add: flow_machine_def)
        next
          case (Continue m1)
          then have lp1: "prep_loop cfg m1 = Some r" using rest Inr by simp
          have fm: "flow_machine fl = m1" using Continue by (simp add: flow_machine_def)
          have ih: "ring_inv cfg m' \<and> segment_buffer_tail m' = segment_buffer_tail m1
             \<and> ring_count cfg m1 \<le> ring_count cfg m'
             \<and> (\<forall>j. occupied cfg m1 j \<longrightarrow> segment_buffer m' j = segment_buffer m1 j)"
            using step(1) [OF lp1] S r p(1) fm by simp
          have occ: "\<forall>j. occupied cfg m j \<longrightarrow> occupied cfg m1 j"
            using occupied_mono [of m1 m cfg] p(2) cnt fm by auto
          show ?thesis using ih p(2) cnt keep occ fm by auto
        qed
      qed
    qed
  qed
qed

end
